theory Spec2Isabelle
  imports Complex_Main
begin

section \<open>Emergency SOS server: a shallow embedding of server.js\<close>

text \<open>
  The server is one file of Express handlers over two Mongoose collections and one
  Twilio client. The embedding keeps the names of the source. JavaScript strings are
  modelled as \<^typ>\<open>string\<close> (lists of bytes): every string function the handlers use
  (\<^verbatim>\<open>replace(/\D/g, '')\<close>, \<^verbatim>\<open>startsWith\<close>, \<^verbatim>\<open>substring\<close>, \<^verbatim>\<open>toUpperCase\<close> on
  base-36 digits) acts on ASCII characters, the upper-casing of the \<^verbatim>\<open>alertType\<close> that a
  client sends defers to the runtime outside ASCII, and the glyphs of the message templates are
  written as their UTF-8 bytes. Times are milliseconds since the epoch, as \<^typ>\<open>nat\<close>.
\<close>

subsection \<open>String helpers of the JavaScript runtime\<close>

definition isDigit :: "char \<Rightarrow> bool" where
  \<comment> \<open>the class \<^verbatim>\<open>\d\<close> of a JavaScript regular expression: \<^verbatim>\<open>[0-9]\<close>\<close>
  "isDigit c = (c \<in> set ''0123456789'')"

definition toUpperChar :: "char \<Rightarrow> char" where
  \<comment> \<open>\<^verbatim>\<open>toUpperCase\<close> on one ASCII character; any other byte is left as it is\<close>
  "toUpperChar c =
     (case map_of (zip ''abcdefghijklmnopqrstuvwxyz'' ''ABCDEFGHIJKLMNOPQRSTUVWXYZ'') c of
        Some u \<Rightarrow> u
      | None \<Rightarrow> c)"

definition toUpperCase :: "string \<Rightarrow> string" where
  \<comment> \<open>\<^verbatim>\<open>s.toUpperCase()\<close> for a string of ASCII characters, as the base-36 digits of
      \<^verbatim>\<open>generateTrackId\<close> are; for any other string see \<open>upperCased\<close> below\<close>
  "toUpperCase s = map toUpperChar s"

definition startsWith :: "string \<Rightarrow> string \<Rightarrow> bool" where
  "startsWith s p = (take (length p) s = p)"

definition substring :: "string \<Rightarrow> nat \<Rightarrow> nat \<Rightarrow> string" where
  \<comment> \<open>\<^verbatim>\<open>s.substring(i, j)\<close> for \<open>i \<le> j\<close>; indices past the end are clamped\<close>
  "substring s i j = take (j - i) (drop i s)"

definition digits36 :: string where
  "digits36 = ''0123456789abcdefghijklmnopqrstuvwxyz''"

definition digitChar :: "nat \<Rightarrow> char" where
  \<comment> \<open>the digits of \<^verbatim>\<open>Number.prototype.toString(radix)\<close>, for a digit below 36\<close>
  "digitChar d = digits36 ! (d mod 36)"

function toStringRadix :: "nat \<Rightarrow> nat \<Rightarrow> string" where
  \<comment> \<open>\<^verbatim>\<open>n.toString(r)\<close> for a non-negative integer \<open>n\<close> and a radix from 2 to 36\<close>
  "toStringRadix r n =
     (if r < 2 \<or> n < r then [digitChar n]
      else toStringRadix r (n div r) @ [digitChar (n mod r)])"
  by pat_completeness auto
termination
  by (relation "measure (\<lambda>(r, n). n)") auto

declare toStringRadix.simps [simp del]

subsection \<open>Helper functions (server.js, lines 104 to 123)\<close>

text \<open>
  \<^verbatim>\<open>generateTrackId\<close> reads the clock and draws one random number. The model takes both
  as arguments: \<open>now\<close> is \<^verbatim>\<open>Date.now()\<close>, and \<open>random36\<close> is the text of
  \<^verbatim>\<open>Math.random().toString(36)\<close>, which is \<^verbatim>\<open>"0"\<close> when the draw is 0 and otherwise
  \<^verbatim>\<open>"0."\<close> followed by the base-36 digits of the fraction (as many as the runtime needs
  to identify the double: \<^verbatim>\<open>(0.5).toString(36)\<close> is \<^verbatim>\<open>"0.i"\<close>).
\<close>

definition generateTrackId :: "nat \<Rightarrow> string \<Rightarrow> string" where
  "generateTrackId now random36 =
     (let prefix = ''EMERGENCY'';
          timestamp = toUpperCase (toStringRadix 36 now);
          random = toUpperCase (substring random36 2 7)
      in prefix @ ''-'' @ timestamp @ ''-'' @ random)"

definition formatWhatsAppNumber :: "string \<Rightarrow> string" where
  "formatWhatsAppNumber phone =
     (let cleaned = filter isDigit phone;
          cleaned = (if \<not> startsWith cleaned ''91'' \<and> length cleaned = 10
                     then ''91'' @ cleaned else cleaned)
      in ''whatsapp:+'' @ cleaned)"

subsection \<open>Schemas (server.js, lines 52 to 98)\<close>

record contact =
  name :: string
  phone :: string
  relationship :: "string option"
  isPrimary :: bool

record delivery_record =
  \<comment> \<open>an element of \<^verbatim>\<open>contactsNotified\<close>\<close>
  dr_name :: string
  dr_phone :: string
  deliveryStatus :: string
  messageSid :: "string option"
  sentAt :: nat
  dr_error :: "string option"

record location =
  lat :: real
  lng :: real

record alert =
  oid :: nat \<comment> \<open>the \<^verbatim>\<open>_id\<close> that Mongoose assigns to the document\<close>
  userId :: string
  trackId :: string
  location :: location
  message :: string
  alertType :: string
  status :: string
  contactsNotified :: "delivery_record list"
  userName :: string
  resolvedAt :: "nat option"
  createdAt :: nat

definition alertTypes :: "string list" where
  "alertTypes = [''sos'', ''accident'', ''medical'', ''threat'', ''other'']"

definition statuses :: "string list" where
  "statuses = [''active'', ''resolved'']"

subsection \<open>The process: configuration, collections, clock and outgoing messages\<close>

record message_options =
  msg_from :: string
  msg_to :: string
  msg_body :: string

datatype event =
    ProviderCall message_options \<comment> \<open>\<^verbatim>\<open>twilioClient.messages.create(messageOptions)\<close>\<close>
  | Simulated string string \<comment> \<open>the two \<^verbatim>\<open>console.log\<close> lines of a simulated send: recipient, message\<close>

text \<open>
  The configuration is read once at start-up. The Twilio client is outside the
  repository: \<open>messages_create\<close> takes the calls made so far and the options of this
  call, and gives \<open>Inr sid\<close> when the provider accepts the message and \<open>Inl text\<close>
  when the call throws or rejects with \<^verbatim>\<open>error.message = text\<close>. The renderings
  that depend on the runtime's locale, number formatting and Unicode case mapping are
  parameters too.
\<close>

record env =
  isTwilioConfigured :: bool
  TWILIO_WHATSAPP_FROM :: string
  messages_create :: "event list \<Rightarrow> message_options \<Rightarrow> string + string"
  toLocaleString :: "nat \<Rightarrow> string"
  numberToString :: "real \<Rightarrow> string"
  unicodeUpperCase :: "string \<Rightarrow> string"

definition isAscii :: "char \<Rightarrow> bool" where
  "isAscii c = (\<not> digit7 c)"

definition upperCased :: "env \<Rightarrow> string \<Rightarrow> string" where
  \<comment> \<open>\<^verbatim>\<open>s.toUpperCase()\<close> for any string: the table above when every character is
      ASCII, the runtime's Unicode case mapping otherwise\<close>
  "upperCased e s = (if list_all isAscii s then toUpperCase s else unicodeUpperCase e s)"

text \<open>
  The state threaded through the handlers: the two collections (at most one
  \<^verbatim>\<open>EmergencyContact\<close> document per \<^verbatim>\<open>userId\<close>, since the only writer is an upsert on
  \<^verbatim>\<open>userId\<close>; the \<^verbatim>\<open>EmergencyAlert\<close> documents in insertion order), the clock, and the
  trace of messages handed to the provider or simulated. The store is taken to
  be available: a Mongoose call fails only where the schema makes it fail. A handler
  that writes makes one write, and the handlers below are modelled as running from
  their first line to their last; the stats handler, which only reads and does so in
  four round trips, is modelled with the writes of other requests that land between
  them.
\<close>

record state =
  EmergencyContact :: "string \<Rightarrow> contact list option"
  EmergencyAlert :: "alert list"
  clock :: nat
  trace :: "event list"

subsection \<open>sendWhatsAppMessage (server.js, lines 125 to 164)\<close>

record send_result =
  res_status :: string
  res_sid :: "string option"
  res_error :: "string option"

definition sendWhatsAppMessage :: "env \<Rightarrow> string \<Rightarrow> string \<Rightarrow> state \<Rightarrow> send_result \<times> state" where
  \<comment> \<open>\<^verbatim>\<open>mediaUrl\<close> keeps its default \<^verbatim>\<open>null\<close> at both call sites\<close>
  "sendWhatsAppMessage e to message' s =
     (if \<not> isTwilioConfigured e then
        (\<lparr>res_status = ''simulated'',
          res_sid = Some (''SIM'' @ toStringRadix 10 (clock s)),
          res_error = None\<rparr>,
         s\<lparr>trace := trace s @ [Simulated to message']\<rparr>)
      else
        let messageOptions =
              \<lparr>msg_from = TWILIO_WHATSAPP_FROM e,
               msg_to = formatWhatsAppNumber to,
               msg_body = message'\<rparr>;
            s' = s\<lparr>trace := trace s @ [ProviderCall messageOptions]\<rparr>
        in case messages_create e (trace s) messageOptions of
             Inr sentMessage_sid \<Rightarrow>
               (\<lparr>res_status = ''sent'', res_sid = Some sentMessage_sid, res_error = None\<rparr>, s')
           | Inl error_message \<Rightarrow>
               (\<lparr>res_status = ''failed'', res_sid = None, res_error = Some error_message\<rparr>, s'))"

subsection \<open>Requests and responses\<close>

text \<open>
  A request body is modelled at the types the interface documents, every field
  optional: \<open>None\<close> is a field that is absent (or \<^verbatim>\<open>null\<close>). A coordinate is the
  number that \<^verbatim>\<open>express.json()\<close> parsed; the handlers only test it for zero.
\<close>

record contact_input =
  in_name :: "string option"
  in_phone :: "string option"
  in_relationship :: "string option"
  in_isPrimary :: "bool option"

record contacts_request =
  creq_userId :: "string option"
  creq_contacts :: "contact_input list option" \<comment> \<open>\<open>None\<close>: absent, or not an array\<close>

record location_input =
  req_lat :: "real option"
  req_lng :: "real option"

record sos_request =
  req_userId :: "string option"
  req_location :: "location_input option"
  req_message :: "string option"
  req_alertType :: "string option"
  req_userName :: "string option"

datatype alert_id =
    Malformed \<comment> \<open>a path segment that Mongoose cannot cast to an ObjectId\<close>
  | ObjectId nat

record sos_stats =
  sent :: nat
  failed :: nat
  total :: nat

record user_stats =
  totalAlerts :: nat
  activeAlerts :: nat
  resolvedAlerts :: nat
  emergencyContacts :: nat

datatype payload =
    Failure string \<comment> \<open>\<^verbatim>\<open>{success: false, error}\<close>\<close>
  | ContactsSaved nat \<comment> \<open>\<^verbatim>\<open>contactCount\<close>\<close>
  | SosSent string bool sos_stats string \<comment> \<open>\<^verbatim>\<open>trackId, twilioConfigured, stats, mapsLink\<close>\<close>
  | AlertResolved alert
  | UserStats user_stats

record response =
  code :: nat
  json :: payload

definition truthy :: "string option \<Rightarrow> bool" where
  \<comment> \<open>JavaScript truthiness of an optional string: absent and \<^verbatim>\<open>''\<close> are falsy\<close>
  "truthy x = (case x of None \<Rightarrow> False | Some v \<Rightarrow> v \<noteq> [])"

definition orElse :: "string option \<Rightarrow> string \<Rightarrow> string" where
  \<comment> \<open>\<^verbatim>\<open>x || d\<close> on an optional string\<close>
  "orElse x d = (case x of None \<Rightarrow> d | Some v \<Rightarrow> if v = [] then d else v)"

subsection \<open>POST /api/emergency/contacts (server.js, lines 179 to 227)\<close>

definition castContact :: "contact_input \<Rightarrow> contact" where
  \<comment> \<open>the cast to the sub-document schema; \<^verbatim>\<open>isPrimary\<close> defaults to \<^verbatim>\<open>false\<close>\<close>
  "castContact c =
     \<lparr>name = orElse (in_name c) [],
      phone = orElse (in_phone c) [],
      relationship = in_relationship c,
      isPrimary = (case in_isPrimary c of None \<Rightarrow> False | Some b \<Rightarrow> b)\<rparr>"

definition post_contacts :: "contacts_request \<Rightarrow> state \<Rightarrow> response \<times> state" where
  "post_contacts req s =
     (case creq_contacts req of
        None \<Rightarrow>
          (\<lparr>code = 400,
            json = Failure ''Invalid request. userId and contacts array required.''\<rparr>, s)
      | Some contacts \<Rightarrow>
          if \<not> truthy (creq_userId req) then
            (\<lparr>code = 400,
              json = Failure ''Invalid request. userId and contacts array required.''\<rparr>, s)
          else if \<exists>c \<in> set contacts. \<not> truthy (in_name c) \<or> \<not> truthy (in_phone c) then
            (\<lparr>code = 400,
              json = Failure ''Each contact must have a name and phone number.''\<rparr>, s)
          else
            (\<lparr>code = 200, json = ContactsSaved (length contacts)\<rparr>,
             s\<lparr>EmergencyContact :=
                 (EmergencyContact s)(orElse (creq_userId req) [] \<mapsto> map castContact contacts)\<rparr>))"

subsection \<open>POST /api/emergency/sos (server.js, lines 249 to 359)\<close>

definition nl :: string where
  "nl = [CHR 0x0A]"

definition alertMessage ::
  "env \<Rightarrow> string option \<Rightarrow> string \<Rightarrow> string \<Rightarrow> string option \<Rightarrow> string \<Rightarrow> nat \<Rightarrow> string" where
  \<comment> \<open>the template of lines 278 to 297 after \<^verbatim>\<open>trim()\<close>, which removes the first and the
      last line break; \<open>alertType'\<close> is a string here, see \<open>post_sos\<close>\<close>
  "alertMessage e userName' mapsLink alertType' message' trackId' t =
     [CHR 0xF0, CHR 0x9F, CHR 0x9A, CHR 0xA8] @ '' *EMERGENCY ALERT* '' @
     [CHR 0xF0, CHR 0x9F, CHR 0x9A, CHR 0xA8] @ nl @ nl @
     orElse userName' ''Someone'' @ '' has triggered an emergency SOS!'' @ nl @ nl @
     [CHR 0xF0, CHR 0x9F, CHR 0x93, CHR 0x8D] @ '' *Location:* '' @ nl @
     mapsLink @ nl @ nl @
     [CHR 0xF0, CHR 0x9F, CHR 0x93, CHR 0x8B] @ '' *Alert Type:* '' @ upperCased e alertType' @ nl @ nl @
     [CHR 0xF0, CHR 0x9F, CHR 0x92, CHR 0xAC] @ '' *Message:* '' @
     orElse message' ''Emergency assistance needed!'' @ nl @ nl @
     [CHR 0xF0, CHR 0x9F, CHR 0x86, CHR 0x94] @ '' *Tracking ID:* '' @ trackId' @ nl @ nl @
     [CHR 0xE2, CHR 0x8F, CHR 0xB0] @ '' *Time:* '' @ toLocaleString e t @ nl @ nl @
     ''Please check on them immediately or contact emergency services if needed.'' @ nl @ nl @
     ''This is an automated emergency alert.''"

text \<open>
  The loop of lines 304 to 324, with its three accumulators. Each round sends to one
  contact, appends its record, counts it, and waits one second.
\<close>

fun dispatch ::
  "env \<Rightarrow> string \<Rightarrow> contact list \<Rightarrow> delivery_record list \<times> nat \<times> nat \<Rightarrow> state
     \<Rightarrow> (delivery_record list \<times> nat \<times> nat) \<times> state" where
  "dispatch e alertMessage' [] acc s = (acc, s)"
| "dispatch e alertMessage' (c # cs) (notificationResults, sentCount, failedCount) s =
     (let (result, s1) = sendWhatsAppMessage e (phone c) alertMessage' s;
          notificationResults' = notificationResults @
            [\<lparr>dr_name = name c,
              dr_phone = phone c,
              deliveryStatus = res_status result,
              messageSid = res_sid result,
              sentAt = clock s1,
              dr_error = res_error result\<rparr>];
          (sentCount', failedCount') =
            (if res_status result = ''sent'' \<or> res_status result = ''simulated''
             then (sentCount + 1, failedCount)
             else (sentCount, failedCount + 1));
          s2 = s1\<lparr>clock := clock s1 + 1000\<rparr>
      in dispatch e alertMessage' cs (notificationResults', sentCount', failedCount') s2)"

definition save :: "alert \<Rightarrow> state \<Rightarrow> string + state" where
  \<comment> \<open>\<^verbatim>\<open>alert.save()\<close>: the schema's enum validators, then the insert under the unique
      index on \<^verbatim>\<open>trackId\<close>; \<open>Inl\<close> is the error thrown\<close>
  "save doc s =
     (if alertType doc \<notin> set alertTypes \<or> status doc \<notin> set statuses then
        Inl ''EmergencyAlert validation failed''
      else if trackId doc \<in> set (map trackId (EmergencyAlert s)) then
        Inl ''E11000 duplicate key error''
      else Inr (s\<lparr>EmergencyAlert := EmergencyAlert s @ [doc]\<rparr>))"

definition invalidRequest :: response where
  "invalidRequest = \<lparr>code = 400, json = Failure ''Invalid request. userId and location required.''\<rparr>"

definition noContacts :: response where
  "noContacts =
     \<lparr>code = 400, json = Failure ''No emergency contacts found. Please add contacts first.''\<rparr>"

definition sosFailed :: response where
  \<comment> \<open>the \<^verbatim>\<open>catch\<close> of the handler\<close>
  "sosFailed = \<lparr>code = 500, json = Failure ''Failed to send emergency alert''\<rparr>"

definition validSos :: "sos_request \<Rightarrow> (string \<times> real \<times> real) option" where
  \<comment> \<open>the guard of line 254, negated:
      \<^verbatim>\<open>userId && location && location.lat && location.lng\<close>\<close>
  "validSos req =
     (case req_userId req of None \<Rightarrow> None | Some userId' \<Rightarrow>
      case req_location req of None \<Rightarrow> None | Some location' \<Rightarrow>
      case req_lat location' of None \<Rightarrow> None | Some lat' \<Rightarrow>
      case req_lng location' of None \<Rightarrow> None | Some lng' \<Rightarrow>
      if userId' = [] \<or> lat' = 0 \<or> lng' = 0 then None else Some (userId', lat', lng'))"

definition post_sos :: "env \<Rightarrow> string \<Rightarrow> sos_request \<Rightarrow> state \<Rightarrow> response \<times> state" where
  \<comment> \<open>\<open>random36\<close> is the one draw \<^verbatim>\<open>Math.random().toString(36)\<close> of the request\<close>
  "post_sos e random36 req s =
     (case validSos req of
        None \<Rightarrow> (invalidRequest, s)
      | Some (userId', lat', lng') \<Rightarrow>
     (case EmergencyContact s userId' of
        None \<Rightarrow> (noContacts, s)
      | Some contacts \<Rightarrow>
          if length contacts = 0 then (noContacts, s)
          else
            let trackId' = generateTrackId (clock s) random36;
                mapsLink = ''https://www.google.com/maps?q='' @ numberToString e lat' @ '','' @
                           numberToString e lng'
            in
            (case req_alertType req of
               None \<Rightarrow> (sosFailed, s) \<comment> \<open>\<^verbatim>\<open>alertType.toUpperCase()\<close> throws a TypeError\<close>
             | Some alertType' \<Rightarrow>
                 let alertMessage' =
                       alertMessage e (req_userName req) mapsLink alertType' (req_message req)
                         trackId' (clock s);
                     ((notificationResults, sentCount, failedCount), s1) =
                       dispatch e alertMessage' contacts ([], 0, 0) s;
                     alert' =
                       \<lparr>oid = length (EmergencyAlert s1),
                        userId = userId',
                        trackId = trackId',
                        location = \<lparr>lat = lat', lng = lng'\<rparr>,
                        message = orElse (req_message req) ''Emergency SOS Alert'',
                        alertType = orElse (Some alertType') ''sos'',
                        status = ''active'',
                        contactsNotified = notificationResults,
                        userName = orElse (req_userName req) ''User'',
                        resolvedAt = None,
                        createdAt = clock s1\<rparr>
                 in (case save alert' s1 of
                       Inl err \<Rightarrow> (sosFailed, s1)
                     | Inr s2 \<Rightarrow>
                         (\<lparr>code = 200,
                           json = SosSent trackId' (isTwilioConfigured e)
                                    \<lparr>sent = sentCount, failed = failedCount,
                                     total = length contacts\<rparr>
                                    mapsLink\<rparr>,
                          s2)))))"

subsection \<open>POST /api/emergency/resolve/:alertId (server.js, lines 411 to 466)\<close>

definition findById :: "nat \<Rightarrow> state \<Rightarrow> alert option" where
  "findById i s = find (\<lambda>a. oid a = i) (EmergencyAlert s)"

definition findByIdAndUpdate ::
  "nat \<Rightarrow> (alert \<Rightarrow> alert) \<Rightarrow> state \<Rightarrow> (alert \<times> state) option" where
  \<comment> \<open>with \<^verbatim>\<open>{new: true}\<close>: the document after the update, or \<^verbatim>\<open>null\<close>\<close>
  "findByIdAndUpdate i update s =
     (case findById i s of
        None \<Rightarrow> None
      | Some a \<Rightarrow>
          Some (update a,
                s\<lparr>EmergencyAlert :=
                    map (\<lambda>b. if oid b = i then update b else b) (EmergencyAlert s)\<rparr>))"

definition resolutionMessage :: "env \<Rightarrow> string \<Rightarrow> nat \<Rightarrow> string" where
  \<comment> \<open>the template of lines 437 to 445 after \<^verbatim>\<open>trim()\<close>\<close>
  "resolutionMessage e trackId' t =
     [CHR 0xE2, CHR 0x9C, CHR 0x85] @ '' *EMERGENCY RESOLVED*'' @ nl @ nl @
     ''The emergency alert (ID: '' @ trackId' @ '') has been marked as resolved.'' @ nl @ nl @
     [CHR 0xE2, CHR 0x8F, CHR 0xB0] @ '' *Resolved at:* '' @ toLocaleString e t @ nl @ nl @
     ''Thank you for your quick response!''"

fun notify :: "env \<Rightarrow> string \<Rightarrow> contact list \<Rightarrow> state \<Rightarrow> state" where
  \<comment> \<open>the loop of lines 448 to 450; the results of the sends are dropped\<close>
  "notify e resolutionMessage' [] s = s"
| "notify e resolutionMessage' (c # cs) s =
     notify e resolutionMessage' cs (snd (sendWhatsAppMessage e (phone c) resolutionMessage' s))"

definition post_resolve :: "env \<Rightarrow> alert_id \<Rightarrow> state \<Rightarrow> response \<times> state" where
  "post_resolve e alertId s =
     (case alertId of
        Malformed \<Rightarrow> (\<lparr>code = 500, json = Failure ''Failed to resolve alert''\<rparr>, s)
      | ObjectId i \<Rightarrow>
     (case findByIdAndUpdate i
             (\<lambda>a. a\<lparr>status := ''resolved'', resolvedAt := Some (clock s)\<rparr>) s of
        None \<Rightarrow> (\<lparr>code = 404, json = Failure ''Alert not found''\<rparr>, s)
      | Some (alert', s1) \<Rightarrow>
          let s2 =
            (if isTwilioConfigured e then
               (case EmergencyContact s1 (userId alert') of
                  None \<Rightarrow> s1
                | Some contacts \<Rightarrow>
                    if length contacts > 0 then
                      notify e (resolutionMessage e (trackId alert') (clock s1))
                        (filter isPrimary contacts) s1
                    else s1)
             else s1)
          in (\<lparr>code = 200, json = AlertResolved alert'\<rparr>, s2)))"

subsection \<open>GET /api/emergency/stats/:userId (server.js, lines 468 to 496)\<close>

definition countDocuments :: "(alert \<Rightarrow> bool) \<Rightarrow> state \<Rightarrow> nat" where
  "countDocuments query s = length (filter query (EmergencyAlert s))"

text \<open>
  The handler awaits four queries one after the other (lines 473 to 477), and no
  transaction spans them. Between two of them the store applies the writes of the
  requests that other clients have in flight: \<open>others1\<close>, \<open>others2\<close> and \<open>others3\<close> are
  the requests whose write lands after the first, the second and the third query. Only
  their effect on the two collections matters to the answer.
\<close>

datatype request =
    SaveContacts contacts_request
  | TriggerSos string sos_request \<comment> \<open>with the draw of its \<^verbatim>\<open>generateTrackId\<close>\<close>
  | Resolve alert_id
  | Elapse nat

fun serve :: "env \<Rightarrow> request \<Rightarrow> state \<Rightarrow> state" where
  "serve e (SaveContacts creq) s = snd (post_contacts creq s)"
| "serve e (TriggerSos random36 req) s = snd (post_sos e random36 req s)"
| "serve e (Resolve alertId) s = snd (post_resolve e alertId s)"
| "serve e (Elapse d) s = s\<lparr>clock := clock s + d\<rparr>"

fun serveAll :: "env \<Rightarrow> request list \<Rightarrow> state \<Rightarrow> state" where
  "serveAll e [] s = s"
| "serveAll e (rq # rqs) s = serveAll e rqs (serve e rq s)"

definition get_stats ::
  "env \<Rightarrow> string \<Rightarrow> request list \<Rightarrow> request list \<Rightarrow> request list \<Rightarrow> state
     \<Rightarrow> response \<times> state" where
  "get_stats e userId' others1 others2 others3 s =
     (let totalAlerts' = countDocuments (\<lambda>a. userId a = userId') s;
          s1 = serveAll e others1 s;
          activeAlerts' = countDocuments (\<lambda>a. userId a = userId' \<and> status a = ''active'') s1;
          s2 = serveAll e others2 s1;
          resolvedAlerts' =
            countDocuments (\<lambda>a. userId a = userId' \<and> status a = ''resolved'') s2;
          s3 = serveAll e others3 s2;
          emergencyContacts' =
            (case EmergencyContact s3 userId' of None \<Rightarrow> 0 | Some contacts \<Rightarrow> length contacts)
      in (\<lparr>code = 200,
           json = UserStats
             \<lparr>totalAlerts = totalAlerts', activeAlerts = activeAlerts',
              resolvedAlerts = resolvedAlerts', emergencyContacts = emergencyContacts'\<rparr>\<rparr>,
          s3))"

subsection \<open>The states the server can be in\<close>

text \<open>
  The server starts with empty collections (as far as this process is concerned) and
  serves one request after the other; between two requests any time may pass.
\<close>

inductive reachable :: "env \<Rightarrow> state \<Rightarrow> bool" for e :: env where
  start: "reachable e \<lparr>EmergencyContact = Map.empty, EmergencyAlert = [], clock = t, trace = []\<rparr>"
| wait: "reachable e s \<Longrightarrow> reachable e (s\<lparr>clock := clock s + d\<rparr>)"
| contacts: "reachable e s \<Longrightarrow> reachable e (snd (post_contacts creq s))"
| sos: "reachable e s \<Longrightarrow> reachable e (snd (post_sos e random36 req s))"
| resolve: "reachable e s \<Longrightarrow> reachable e (snd (post_resolve e alertId s))"

definition recipient :: "event \<Rightarrow> string" where
  "recipient ev = (case ev of ProviderCall options \<Rightarrow> msg_to options | Simulated to message' \<Rightarrow> to)"

definition sendEvent :: "env \<Rightarrow> string \<Rightarrow> contact \<Rightarrow> event" where
  \<comment> \<open>what one call \<open>sendWhatsAppMessage e (phone c) message'\<close> adds to the trace\<close>
  "sendEvent e message' c =
     (if isTwilioConfigured e
      then ProviderCall \<lparr>msg_from = TWILIO_WHATSAPP_FROM e,
                         msg_to = formatWhatsAppNumber (phone c),
                         msg_body = message'\<rparr>
      else Simulated (phone c) message')"

definition outcome :: "env \<Rightarrow> string \<Rightarrow> contact list \<Rightarrow> state \<Rightarrow> nat \<Rightarrow> send_result" where
  \<comment> \<open>what \<open>sendWhatsAppMessage\<close> returns for contact \<open>i\<close> of the list, called after the
      sends and the one-second waits for the contacts before it\<close>
  "outcome e message' cs s i =
     fst (sendWhatsAppMessage e (phone (cs ! i)) message'
            (s\<lparr>trace := trace s @ map (sendEvent e message') (take i cs),
              clock := clock s + 1000 * i\<rparr>))"

subsection \<open>The tracking-code pattern of the specification\<close>

definition upperAlnum :: "char \<Rightarrow> bool" where
  \<comment> \<open>the class \<^verbatim>\<open>[A-Z0-9]\<close>\<close>
  "upperAlnum c = (c \<in> set ''ABCDEFGHIJKLMNOPQRSTUVWXYZ0123456789'')"

definition matchesTrackPattern :: "string \<Rightarrow> bool" where
  \<comment> \<open>the whole string matches \<^verbatim>\<open>EMERGENCY-[A-Z0-9]+-[A-Z0-9]{5}\<close>; the hyphen is outside
      the class, so the first group is the longest run of class characters\<close>
  "matchesTrackPattern code' =
     (startsWith code' ''EMERGENCY-'' \<and>
      (let rest = drop 10 code';
           stamp = takeWhile upperAlnum rest
       in stamp \<noteq> [] \<and>
          (case dropWhile upperAlnum rest of
             [] \<Rightarrow> False
           | c # suffix \<Rightarrow> c = CHR ''-'' \<and> length suffix = 5 \<and> list_all upperAlnum suffix)))"

subsection \<open>The example of the specification\<close>

text \<open>
  Owner \<^verbatim>\<open>u1\<close> with the primary contact Ann and the contact Bob, a provider that
  accepts every message or one that rejects every message to Ann's number, and the
  requests that save the contacts and raise the alarm at \<^verbatim>\<open>{lat: 12.9, lng: 77.6}\<close>.
\<close>

definition ann :: contact_input where
  "ann = \<lparr>in_name = Some ''Ann'', in_phone = Some ''9876543210'', in_relationship = None,
          in_isPrimary = Some True\<rparr>"

definition bob :: contact_input where
  "bob = \<lparr>in_name = Some ''Bob'', in_phone = Some ''9123456780'', in_relationship = None,
          in_isPrimary = Some False\<rparr>"

definition accepting :: "event list \<Rightarrow> message_options \<Rightarrow> string + string" where
  "accepting calls options = Inr (''SM'' @ toStringRadix 10 (length calls))"

definition rejectingAnn :: "event list \<Rightarrow> message_options \<Rightarrow> string + string" where
  "rejectingAnn calls options =
     (if msg_to options = ''whatsapp:+919876543210''
      then Inl ''The number is not a valid WhatsApp recipient''
      else Inr (''SM'' @ toStringRadix 10 (length calls)))"

definition server :: "bool \<Rightarrow> (event list \<Rightarrow> message_options \<Rightarrow> string + string) \<Rightarrow> env" where
  "server configured provider =
     \<lparr>isTwilioConfigured = configured,
      TWILIO_WHATSAPP_FROM = ''whatsapp:+14155238886'',
      messages_create = provider,
      toLocaleString = toStringRadix 10,
      numberToString = (\<lambda>x. if x = 12.9 then ''12.9'' else if x = 77.6 then ''77.6'' else ''0''),
      unicodeUpperCase = toUpperCase\<rparr>"

definition started :: state where
  "started = \<lparr>EmergencyContact = Map.empty, EmergencyAlert = [], clock = 5000, trace = []\<rparr>"

definition saveU1 :: contacts_request where
  "saveU1 = \<lparr>creq_userId = Some ''u1'', creq_contacts = Some [ann, bob]\<rparr>"

definition sosU1 :: sos_request where
  "sosU1 = \<lparr>req_userId = Some ''u1'',
            req_location = Some \<lparr>req_lat = Some 12.9, req_lng = Some 77.6\<rparr>,
            req_message = None, req_alertType = Some ''sos'', req_userName = None\<rparr>"

definition withContacts :: state where
  "withContacts = snd (post_contacts saveU1 started)"

definition alarmed :: "env \<Rightarrow> state" where
  "alarmed e = snd (post_sos e ''0.4fzyo82mvyr'' sosU1 withContacts)"

definition resolved :: "env \<Rightarrow> state" where
  "resolved e = snd (post_resolve e (ObjectId 0) (alarmed e))"

definition aMinuteLater :: "state \<Rightarrow> state" where
  "aMinuteLater s = s\<lparr>clock := clock s + 60000\<rparr>"

definition resolvedTwice :: "env \<Rightarrow> state" where
  "resolvedTwice e = snd (post_resolve e (ObjectId 0) (aMinuteLater (resolved e)))"

definition alarmedAgain :: "env \<Rightarrow> state" where
  "alarmedAgain e = snd (post_sos e ''0.k3x9q1zz'' sosU1 (aMinuteLater (resolved e)))"



section \<open>Properties\<close>

subsection \<open>Evaluating the example\<close>

lemmas example_defs =
  server_def accepting_def rejectingAnn_def started_def saveU1_def sosU1_def ann_def bob_def
  withContacts_def alarmed_def post_contacts_def castContact_def truthy_def orElse_def

lemmas string_defs =
  formatWhatsAppNumber_def isDigit_def startsWith_def substring_def toUpperCase_def
  toUpperChar_def digitChar_def digits36_def toStringRadix.simps generateTrackId_def

lemma withContacts_eq:
  "withContacts =
     \<lparr>EmergencyContact =
        [''u1'' \<mapsto>
           [\<lparr>name = ''Ann'', phone = ''9876543210'', relationship = None, isPrimary = True\<rparr>,
            \<lparr>name = ''Bob'', phone = ''9123456780'', relationship = None, isPrimary = False\<rparr>]],
      EmergencyAlert = [], clock = 5000, trace = []\<rparr>"
  by (simp add: example_defs)

subsection \<open>One send\<close>

lemma send_status:
  "res_status (fst (sendWhatsAppMessage e to m s)) \<in> {''sent'', ''simulated'', ''failed''}"
  by (simp add: sendWhatsAppMessage_def Let_def split: sum.split)

lemma send_trace:
  "trace (snd (sendWhatsAppMessage e (phone c) m s)) = trace s @ [sendEvent e m c]"
  by (simp add: sendWhatsAppMessage_def sendEvent_def Let_def split: sum.split)

lemma send_frame:
  "clock (snd (sendWhatsAppMessage e to m s)) = clock s"
  "EmergencyContact (snd (sendWhatsAppMessage e to m s)) = EmergencyContact s"
  "EmergencyAlert (snd (sendWhatsAppMessage e to m s)) = EmergencyAlert s"
  by (simp_all add: sendWhatsAppMessage_def Let_def split: sum.split)

lemma send_result:
  "fst (sendWhatsAppMessage e (phone c) m s) =
     (if \<not> isTwilioConfigured e then
        \<lparr>res_status = ''simulated'', res_sid = Some (''SIM'' @ toStringRadix 10 (clock s)),
         res_error = None\<rparr>
      else case messages_create e (trace s)
                  \<lparr>msg_from = TWILIO_WHATSAPP_FROM e, msg_to = formatWhatsAppNumber (phone c),
                   msg_body = m\<rparr> of
             Inl err \<Rightarrow> \<lparr>res_status = ''failed'', res_sid = None, res_error = Some err\<rparr>
           | Inr sid \<Rightarrow> \<lparr>res_status = ''sent'', res_sid = Some sid, res_error = None\<rparr>)"
  by (simp add: sendWhatsAppMessage_def Let_def split: sum.split)

subsection \<open>The dispatch loop\<close>

lemma dispatch_step:
  "dispatch e m (c # cs) (rs, sc, fc) s =
     dispatch e m cs
       (rs @ [\<lparr>dr_name = name c, dr_phone = phone c,
               deliveryStatus = res_status (fst (sendWhatsAppMessage e (phone c) m s)),
               messageSid = res_sid (fst (sendWhatsAppMessage e (phone c) m s)),
               sentAt = clock s,
               dr_error = res_error (fst (sendWhatsAppMessage e (phone c) m s))\<rparr>],
        if res_status (fst (sendWhatsAppMessage e (phone c) m s)) = ''sent'' \<or>
           res_status (fst (sendWhatsAppMessage e (phone c) m s)) = ''simulated''
        then sc + 1 else sc,
        if res_status (fst (sendWhatsAppMessage e (phone c) m s)) = ''sent'' \<or>
           res_status (fst (sendWhatsAppMessage e (phone c) m s)) = ''simulated''
        then fc else fc + 1)
       ((snd (sendWhatsAppMessage e (phone c) m s))\<lparr>clock := clock s + 1000\<rparr>)"
  by (cases "sendWhatsAppMessage e (phone c) m s")
     (use send_frame(1) [of e "phone c" m s] in \<open>simp add: Let_def\<close>)

lemma dispatch_state:
  "trace (snd (dispatch e m cs acc s)) = trace s @ map (sendEvent e m) cs \<and>
   clock (snd (dispatch e m cs acc s)) = clock s + 1000 * length cs \<and>
   EmergencyContact (snd (dispatch e m cs acc s)) = EmergencyContact s \<and>
   EmergencyAlert (snd (dispatch e m cs acc s)) = EmergencyAlert s"
proof (induction cs arbitrary: acc s)
  case Nil
  show ?case by simp
next
  case (Cons c cs)
  obtain rs sc fc where acc: "acc = (rs, sc, fc)" by (cases acc)
  show ?case
    unfolding acc dispatch_step
    by (simp add: Cons.IH send_trace send_frame)
qed

lemma dispatch_records:
  "\<exists>new. fst (fst (dispatch e m cs (rs, sc, fc) s)) = rs @ new \<and>
         map dr_name new = map name cs \<and> map dr_phone new = map phone cs \<and>
         (\<forall>r \<in> set new. deliveryStatus r \<in> {''sent'', ''simulated'', ''failed''}) \<and>
         fst (snd (fst (dispatch e m cs (rs, sc, fc) s))) =
           sc + length (filter (\<lambda>r. deliveryStatus r = ''sent'' \<or> deliveryStatus r = ''simulated'') new) \<and>
         snd (snd (fst (dispatch e m cs (rs, sc, fc) s))) =
           fc + length (filter (\<lambda>r. deliveryStatus r = ''failed'') new)"
proof (induction cs arbitrary: rs sc fc s)
  case Nil
  show ?case by simp
next
  case (Cons c cs)
  define result where "result = fst (sendWhatsAppMessage e (phone c) m s)"
  define s2 where "s2 = (snd (sendWhatsAppMessage e (phone c) m s))\<lparr>clock := clock s + 1000\<rparr>"
  have st: "res_status result \<in> {''sent'', ''simulated'', ''failed''}"
    unfolding result_def by (rule send_status)
  define r where "r = \<lparr>dr_name = name c, dr_phone = phone c, deliveryStatus = res_status result,
      messageSid = res_sid result, sentAt = clock s, dr_error = res_error result\<rparr>"
  define ok where "ok \<longleftrightarrow> res_status result = ''sent'' \<or> res_status result = ''simulated''"
  have step: "dispatch e m (c # cs) (rs, sc, fc) s =
      dispatch e m cs (rs @ [r], if ok then sc + 1 else sc, if ok then fc else fc + 1) s2"
    unfolding dispatch_step r_def ok_def result_def s2_def ..
  from Cons.IH [of "rs @ [r]" "if ok then sc + 1 else sc" "if ok then fc else fc + 1" s2]
  obtain new where new:
    "fst (fst (dispatch e m (c # cs) (rs, sc, fc) s)) = (rs @ [r]) @ new"
    "map dr_name new = map name cs" "map dr_phone new = map phone cs"
    "\<forall>r \<in> set new. deliveryStatus r \<in> {''sent'', ''simulated'', ''failed''}"
    "fst (snd (fst (dispatch e m (c # cs) (rs, sc, fc) s))) =
       (if ok then sc + 1 else sc) +
       length (filter (\<lambda>r. deliveryStatus r = ''sent'' \<or> deliveryStatus r = ''simulated'') new)"
    "snd (snd (fst (dispatch e m (c # cs) (rs, sc, fc) s))) =
       (if ok then fc else fc + 1) + length (filter (\<lambda>r. deliveryStatus r = ''failed'') new)"
    unfolding step by blast
  have rst: "deliveryStatus r = res_status result" "dr_name r = name c" "dr_phone r = phone c"
    by (simp_all add: r_def)
  show ?case
  proof (intro exI [of _ "r # new"] conjI)
    show "fst (fst (dispatch e m (c # cs) (rs, sc, fc) s)) = rs @ r # new"
      using new(1) by simp
    show "map dr_name (r # new) = map name (c # cs)" using new(2) rst by simp
    show "map dr_phone (r # new) = map phone (c # cs)" using new(3) rst by simp
    show "\<forall>r \<in> set (r # new). deliveryStatus r \<in> {''sent'', ''simulated'', ''failed''}"
      using new(4) st rst by simp
    show "fst (snd (fst (dispatch e m (c # cs) (rs, sc, fc) s))) =
       sc + length (filter (\<lambda>r. deliveryStatus r = ''sent'' \<or> deliveryStatus r = ''simulated'') (r # new))"
      using new(5) rst by (simp add: ok_def)
    show "snd (snd (fst (dispatch e m (c # cs) (rs, sc, fc) s))) =
       fc + length (filter (\<lambda>r. deliveryStatus r = ''failed'') (r # new))"
      using new(6) rst st by (auto simp add: ok_def)
  qed
qed

lemma count_split:
  "\<forall>r \<in> set rs. deliveryStatus r \<in> {''sent'', ''simulated'', ''failed''} \<Longrightarrow>
   length (filter (\<lambda>r. deliveryStatus r = ''sent'' \<or> deliveryStatus r = ''simulated'') rs) +
   length (filter (\<lambda>r. deliveryStatus r = ''failed'') rs) = length rs"
  by (induction rs) auto

lemma dispatch_nth:
  "i < length cs \<Longrightarrow>
   fst (fst (dispatch e m cs (rs, sc, fc) s)) ! (length rs + i) =
     \<lparr>dr_name = name (cs ! i), dr_phone = phone (cs ! i),
      deliveryStatus = res_status (fst (sendWhatsAppMessage e (phone (cs ! i)) m
         (s\<lparr>trace := trace s @ map (sendEvent e m) (take i cs), clock := clock s + 1000 * i\<rparr>))),
      messageSid = res_sid (fst (sendWhatsAppMessage e (phone (cs ! i)) m
         (s\<lparr>trace := trace s @ map (sendEvent e m) (take i cs), clock := clock s + 1000 * i\<rparr>))),
      sentAt = clock s + 1000 * i,
      dr_error = res_error (fst (sendWhatsAppMessage e (phone (cs ! i)) m
         (s\<lparr>trace := trace s @ map (sendEvent e m) (take i cs), clock := clock s + 1000 * i\<rparr>)))\<rparr>"
proof (induction cs arbitrary: i rs sc fc s)
  case Nil
  then show ?case by simp
next
  case (Cons c cs)
  define r where "r = \<lparr>dr_name = name c, dr_phone = phone c,
               deliveryStatus = res_status (fst (sendWhatsAppMessage e (phone c) m s)),
               messageSid = res_sid (fst (sendWhatsAppMessage e (phone c) m s)),
               sentAt = clock s,
               dr_error = res_error (fst (sendWhatsAppMessage e (phone c) m s))\<rparr>"
  define s2 where "s2 = (snd (sendWhatsAppMessage e (phone c) m s))\<lparr>clock := clock s + 1000\<rparr>"
  obtain sc' fc' where step:
    "dispatch e m (c # cs) (rs, sc, fc) s = dispatch e m cs (rs @ [r], sc', fc') s2"
    unfolding dispatch_step r_def s2_def by blast
  show ?case
  proof (cases i)
    case 0
    obtain new where "fst (fst (dispatch e m cs (rs @ [r], sc', fc') s2)) = (rs @ [r]) @ new"
      using dispatch_records [of e m cs "rs @ [r]" sc' fc' s2] by blast
    then have "fst (fst (dispatch e m (c # cs) (rs, sc, fc) s)) ! length rs = r"
      unfolding step by simp
    then show ?thesis
      using 0 by (simp add: r_def)
  next
    case (Suc k)
    then have k: "k < length cs" using Cons.prems by simp
    have s2: "trace s2 = trace s @ [sendEvent e m c]" "clock s2 = clock s + 1000"
      by (simp_all add: s2_def send_trace)
    have eq: "s2\<lparr>trace := trace s2 @ map (sendEvent e m) (take k cs), clock := clock s2 + 1000 * k\<rparr> =
          s\<lparr>trace := trace s @ map (sendEvent e m) (take (Suc k) (c # cs)),
            clock := clock s + 1000 * Suc k\<rparr>"
      by (simp add: s2_def sendWhatsAppMessage_def sendEvent_def Let_def split: sum.split)
    have "fst (fst (dispatch e m (c # cs) (rs, sc, fc) s)) ! (length (rs @ [r]) + k) =
       \<lparr>dr_name = name (cs ! k), dr_phone = phone (cs ! k),
      deliveryStatus = res_status (fst (sendWhatsAppMessage e (phone (cs ! k)) m
         (s2\<lparr>trace := trace s2 @ map (sendEvent e m) (take k cs), clock := clock s2 + 1000 * k\<rparr>))),
      messageSid = res_sid (fst (sendWhatsAppMessage e (phone (cs ! k)) m
         (s2\<lparr>trace := trace s2 @ map (sendEvent e m) (take k cs), clock := clock s2 + 1000 * k\<rparr>))),
      sentAt = clock s2 + 1000 * k,
      dr_error = res_error (fst (sendWhatsAppMessage e (phone (cs ! k)) m
         (s2\<lparr>trace := trace s2 @ map (sendEvent e m) (take k cs), clock := clock s2 + 1000 * k\<rparr>)))\<rparr>"
      unfolding step by (rule Cons.IH [OF k])
    then show ?thesis
      unfolding eq using Suc s2(2) by simp
  qed
qed

lemma dispatch_ledger:
  "fst (fst (dispatch e m cs ([], 0, 0) s)) =
     map (\<lambda>i. \<lparr>dr_name = name (cs ! i), dr_phone = phone (cs ! i),
                deliveryStatus = res_status (outcome e m cs s i),
                messageSid = res_sid (outcome e m cs s i),
                sentAt = clock s + 1000 * i,
                dr_error = res_error (outcome e m cs s i)\<rparr>) [0..<length cs]"
proof (rule nth_equalityI)
  obtain new where new: "fst (fst (dispatch e m cs ([], 0, 0) s)) = [] @ new"
    "map dr_name new = map name cs"
    using dispatch_records [of e m cs "[]" 0 0 s] by blast
  have "length new = length cs"
    using new(2) by (metis length_map)
  then show len: "length (fst (fst (dispatch e m cs ([], 0, 0) s))) =
      length (map (\<lambda>i. \<lparr>dr_name = name (cs ! i), dr_phone = phone (cs ! i),
                deliveryStatus = res_status (outcome e m cs s i),
                messageSid = res_sid (outcome e m cs s i),
                sentAt = clock s + 1000 * i,
                dr_error = res_error (outcome e m cs s i)\<rparr>) [0..<length cs])"
    using new(1) by simp
  fix i
  assume "i < length (fst (fst (dispatch e m cs ([], 0, 0) s)))"
  then have i: "i < length cs" using len by simp
  show "fst (fst (dispatch e m cs ([], 0, 0) s)) ! i =
      map (\<lambda>i. \<lparr>dr_name = name (cs ! i), dr_phone = phone (cs ! i),
                deliveryStatus = res_status (outcome e m cs s i),
                messageSid = res_sid (outcome e m cs s i),
                sentAt = clock s + 1000 * i,
                dr_error = res_error (outcome e m cs s i)\<rparr>) [0..<length cs] ! i"
    using dispatch_nth [OF i, of e m "[]" 0 0 s] i by (simp add: outcome_def)
qed

text \<open>
  C5. For a contact list of any size \<open>K\<close>, the dispatch loop makes one send per
  contact, in list order, and produces exactly \<open>K\<close> delivery records in that order:
  record \<open>i\<close> carries the name and phone of contact \<open>i\<close> and the status, identifier
  and error that \<^verbatim>\<open>sendWhatsAppMessage\<close> returned for it, and every status is among
  \<^verbatim>\<open>sent\<close>, \<^verbatim>\<open>simulated\<close> and \<^verbatim>\<open>failed\<close>. \<^verbatim>\<open>sentCount\<close> is the number of sends
  whose outcome was \<^verbatim>\<open>sent\<close> or \<^verbatim>\<open>simulated\<close>, \<^verbatim>\<open>failedCount\<close> the number whose
  outcome was \<^verbatim>\<open>failed\<close>, and the two counts add up to \<open>K\<close>.
\<close>

theorem dispatch_accounts_for_every_contact:
  "case dispatch e m cs ([], 0, 0) s of
     ((records, sentCount, failedCount), s') \<Rightarrow>
       length records = length cs \<and>
       trace s' = trace s @ map (sendEvent e m) cs \<and>
       (\<forall>i < length cs.
          records ! i =
            \<lparr>dr_name = name (cs ! i), dr_phone = phone (cs ! i),
             deliveryStatus = res_status (outcome e m cs s i),
             messageSid = res_sid (outcome e m cs s i),
             sentAt = clock s + 1000 * i,
             dr_error = res_error (outcome e m cs s i)\<rparr>) \<and>
       (\<forall>r \<in> set records. deliveryStatus r \<in> {''sent'', ''simulated'', ''failed''}) \<and>
       sentCount =
         length (filter (\<lambda>i. res_status (outcome e m cs s i) = ''sent'' \<or>
                               res_status (outcome e m cs s i) = ''simulated'') [0..<length cs]) \<and>
       failedCount =
         length (filter (\<lambda>i. res_status (outcome e m cs s i) = ''failed'') [0..<length cs]) \<and>
       sentCount + failedCount = length cs"
proof -
  obtain records sentCount failedCount s' where
    d: "dispatch e m cs ([], 0, 0) s = ((records, sentCount, failedCount), s')"
    by (metis prod.exhaust)
  from dispatch_records [of e m cs "[]" 0 0 s] d
  have new: "map dr_name records = map name cs"
    "\<forall>r \<in> set records. deliveryStatus r \<in> {''sent'', ''simulated'', ''failed''}"
    "sentCount =
       length (filter (\<lambda>r. deliveryStatus r = ''sent'' \<or> deliveryStatus r = ''simulated'') records)"
    "failedCount = length (filter (\<lambda>r. deliveryStatus r = ''failed'') records)"
    by auto
  have len: "length records = length cs"
    using new(1) by (metis length_map)
  have tr: "trace s' = trace s @ map (sendEvent e m) cs"
    using dispatch_state [of e m cs "([], 0, 0)" s] d by simp
  have ledger: "records =
     map (\<lambda>i. \<lparr>dr_name = name (cs ! i), dr_phone = phone (cs ! i),
                deliveryStatus = res_status (outcome e m cs s i),
                messageSid = res_sid (outcome e m cs s i),
                sentAt = clock s + 1000 * i,
                dr_error = res_error (outcome e m cs s i)\<rparr>) [0..<length cs]"
    using dispatch_ledger [of e m cs s] d by simp
  have nth: "\<forall>i < length cs.
          records ! i =
            \<lparr>dr_name = name (cs ! i), dr_phone = phone (cs ! i),
             deliveryStatus = res_status (outcome e m cs s i),
             messageSid = res_sid (outcome e m cs s i),
             sentAt = clock s + 1000 * i,
             dr_error = res_error (outcome e m cs s i)\<rparr>"
    by (subst ledger) simp
  have sc: "sentCount =
         length (filter (\<lambda>i. res_status (outcome e m cs s i) = ''sent'' \<or>
                               res_status (outcome e m cs s i) = ''simulated'') [0..<length cs])"
    unfolding new(3) by (subst ledger) (simp add: filter_map o_def)
  have fc: "failedCount =
         length (filter (\<lambda>i. res_status (outcome e m cs s i) = ''failed'') [0..<length cs])"
    unfolding new(4) by (subst ledger) (simp add: filter_map o_def)
  have total: "sentCount + failedCount = length cs"
    using count_split [OF new(2)] new(3,4) len by simp
  show ?thesis
    unfolding d using len tr nth new(2) sc fc total by simp
qed

theorem dispatch_accounts_for_every_contact_witness:
  "case dispatch (server True rejectingAnn) ''help''
          [\<lparr>name = ''Ann'', phone = ''9876543210'', relationship = None, isPrimary = True\<rparr>,
           \<lparr>name = ''Bob'', phone = ''9123456780'', relationship = None, isPrimary = False\<rparr>]
          ([], 0, 0) withContacts of
     ((records, sentCount, failedCount), s') \<Rightarrow>
       map recipient (trace s') = [''whatsapp:+919876543210'', ''whatsapp:+9123456780''] \<and>
       map deliveryStatus records = [''failed'', ''sent''] \<and>
       (\<forall>r \<in> set records. deliveryStatus r \<in> {''sent'', ''simulated'', ''failed''}) \<and>
       (\<forall>i < 2. deliveryStatus (records ! i) =
          res_status (outcome (server True rejectingAnn) ''help''
            [\<lparr>name = ''Ann'', phone = ''9876543210'', relationship = None, isPrimary = True\<rparr>,
             \<lparr>name = ''Bob'', phone = ''9123456780'', relationship = None, isPrimary = False\<rparr>]
            withContacts i)) \<and>
       sentCount = 1 \<and> failedCount = 1 \<and>
       sentCount + failedCount = (2::nat)"
  using dispatch_accounts_for_every_contact [where e = "server True rejectingAnn" and m = "''help''"
      and cs = "[\<lparr>name = ''Ann'', phone = ''9876543210'', relationship = None, isPrimary = True\<rparr>,
        \<lparr>name = ''Bob'', phone = ''9123456780'', relationship = None, isPrimary = False\<rparr>]"
      and s = withContacts]
  by (simp add: withContacts_eq sendWhatsAppMessage_def sendEvent_def recipient_def outcome_def
      server_def rejectingAnn_def string_defs Let_def less_Suc_eq numeral_2_eq_2)

text \<open>
  C6. Whatever the provider answers, a failure while sending to contact \<open>i\<close> does not
  stop the loop: \<^verbatim>\<open>sendWhatsAppMessage\<close> turns a call that throws into a \<^verbatim>\<open>failed\<close>
  result carrying the provider's error text, the loop makes one send for every contact
  of the list, in order, and every contact gets its record. The record of contact \<open>i\<close>
  is \<^verbatim>\<open>failed\<close> exactly when the provider rejected the call made for it, after the
  calls for the contacts before it.
\<close>

theorem failed_send_does_not_abort:
  assumes "i < length cs"
  shows "case dispatch e m cs ([], 0, 0) s of
     ((records, sentCount, failedCount), s') \<Rightarrow>
       length records = length cs \<and>
       trace s' = trace s @ map (sendEvent e m) cs \<and>
       dr_name (records ! i) = name (cs ! i) \<and>
       dr_phone (records ! i) = phone (cs ! i) \<and>
       (deliveryStatus (records ! i), dr_error (records ! i)) =
         (if \<not> isTwilioConfigured e then (''simulated'', None)
          else case messages_create e (trace s @ map (sendEvent e m) (take i cs))
                      \<lparr>msg_from = TWILIO_WHATSAPP_FROM e,
                       msg_to = formatWhatsAppNumber (phone (cs ! i)),
                       msg_body = m\<rparr> of
                 Inl error_message \<Rightarrow> (''failed'', Some error_message)
               | Inr sid \<Rightarrow> (''sent'', None))"
proof -
  obtain records sentCount failedCount s' where
    d: "dispatch e m cs ([], 0, 0) s = ((records, sentCount, failedCount), s')"
    by (metis prod.exhaust)
  have len: "length records = length cs"
    using dispatch_records [of e m cs "[]" 0 0 s] d by (metis append_Nil fst_conv length_map)
  have tr: "trace s' = trace s @ map (sendEvent e m) cs"
    using dispatch_state [of e m cs "([], 0, 0)" s] d by simp
  have nth: "records ! i =
     \<lparr>dr_name = name (cs ! i), dr_phone = phone (cs ! i),
      deliveryStatus = res_status (fst (sendWhatsAppMessage e (phone (cs ! i)) m
         (s\<lparr>trace := trace s @ map (sendEvent e m) (take i cs), clock := clock s + 1000 * i\<rparr>))),
      messageSid = res_sid (fst (sendWhatsAppMessage e (phone (cs ! i)) m
         (s\<lparr>trace := trace s @ map (sendEvent e m) (take i cs), clock := clock s + 1000 * i\<rparr>))),
      sentAt = clock s + 1000 * i,
      dr_error = res_error (fst (sendWhatsAppMessage e (phone (cs ! i)) m
         (s\<lparr>trace := trace s @ map (sendEvent e m) (take i cs), clock := clock s + 1000 * i\<rparr>)))\<rparr>"
    using dispatch_nth [OF assms, of e m "[]" 0 0 s] d by simp
  show ?thesis
    unfolding d using len tr
    by (simp add: nth send_result split: sum.split)
qed

theorem failed_send_does_not_abort_witness:
  "(1::nat) < length [\<lparr>name = ''Ann'', phone = ''9876543210'', relationship = None, isPrimary = True\<rparr>,
           \<lparr>name = ''Bob'', phone = ''9123456780'', relationship = None, isPrimary = False\<rparr>] \<and>
   (case dispatch (server True rejectingAnn) ''help''
          [\<lparr>name = ''Ann'', phone = ''9876543210'', relationship = None, isPrimary = True\<rparr>,
           \<lparr>name = ''Bob'', phone = ''9123456780'', relationship = None, isPrimary = False\<rparr>]
          ([], 0, 0) withContacts of
     ((records, sentCount, failedCount), s') \<Rightarrow>
       length records = 2 \<and>
       map recipient (trace s') = [''whatsapp:+919876543210'', ''whatsapp:+9123456780''] \<and>
       deliveryStatus (records ! 0) = ''failed'' \<and>
       dr_name (records ! 1) = ''Bob'' \<and>
       (deliveryStatus (records ! 1), dr_error (records ! 1)) = (''sent'', None))"
proof -
  have h: "(1::nat) < length [\<lparr>name = ''Ann'', phone = ''9876543210'', relationship = None, isPrimary = True\<rparr>,
           \<lparr>name = ''Bob'', phone = ''9123456780'', relationship = None, isPrimary = False\<rparr>]"
    by simp
  show ?thesis
    using h failed_send_does_not_abort [OF h, where e = "server True rejectingAnn" and m = "''help''"
      and s = withContacts]
    by (simp add: withContacts_eq sendWhatsAppMessage_def sendEvent_def recipient_def server_def
        rejectingAnn_def string_defs Let_def)
qed

subsection \<open>Recipient numbers\<close>

text \<open>
  C3, as the code has it. With the provider configured, \<^verbatim>\<open>sendWhatsAppMessage\<close> hands
  the provider the recipient with every non-digit removed, and puts \<^verbatim>\<open>91\<close> in front
  exactly when the digits are ten and do not already begin with \<^verbatim>\<open>91\<close>: the test of
  line 118 is \<^verbatim>\<open>!cleaned.startsWith('91') && cleaned.length === 10\<close>.
\<close>

theorem send_normalizes_recipient:
  assumes "isTwilioConfigured e"
  shows "trace (snd (sendWhatsAppMessage e to m s)) =
     trace s @
     [ProviderCall
        \<lparr>msg_from = TWILIO_WHATSAPP_FROM e,
         msg_to = ''whatsapp:+'' @
           (if length (filter isDigit to) = 10 \<and> \<not> startsWith (filter isDigit to) ''91''
            then ''91'' @ filter isDigit to
            else filter isDigit to),
         msg_body = m\<rparr>]"
  using assms
  by (simp add: sendWhatsAppMessage_def formatWhatsAppNumber_def Let_def split: sum.split)

theorem send_normalizes_recipient_witness:
  "isTwilioConfigured (server True accepting) \<and>
   trace (snd (sendWhatsAppMessage (server True accepting) ''98765 43210'' ''help'' started)) =
     [ProviderCall \<lparr>msg_from = ''whatsapp:+14155238886'', msg_to = ''whatsapp:+919876543210'',
                    msg_body = ''help''\<rparr>]"
proof -
  have h: "isTwilioConfigured (server True accepting)"
    by (simp add: server_def)
  show ?thesis
    using h send_normalizes_recipient [OF h, of "''98765 43210''" "''help''" started]
    by (simp add: server_def started_def isDigit_def startsWith_def)
qed

text \<open>
  The claim as the specification words it, that every ten-digit number is sent with the
  prefix, fails for a ten-digit number that begins with 9 and 1, such as Bob's.
\<close>

theorem ten_digits_starting_91_not_prefixed:
  "length (filter isDigit ''9123456780'') = 10 \<and>
   formatWhatsAppNumber ''9123456780'' = ''whatsapp:+9123456780'' \<and>
   map recipient
     (trace (snd (sendWhatsAppMessage (server True accepting) ''9123456780'' ''help'' started))) =
     [''whatsapp:+9123456780'']"
  by (simp add: sendWhatsAppMessage_def recipient_def server_def accepting_def started_def
      string_defs Let_def)

subsection \<open>Tracking codes\<close>

lemma digitChar_base36: "digitChar d \<in> set digits36"
  unfolding digitChar_def by (rule nth_mem) (simp add: digits36_def)

lemma toStringRadix_base36:
  "toStringRadix r n \<noteq> [] \<and> set (toStringRadix r n) \<subseteq> set digits36"
proof (induction r n rule: toStringRadix.induct)
  case (1 r n)
  show ?case
  proof (cases "r < 2 \<or> n < r")
    case True
    then have "toStringRadix r n = [digitChar n]"
      by (subst toStringRadix.simps) simp
    then show ?thesis
      using digitChar_base36 [of n] by simp
  next
    case False
    then have "toStringRadix r n = toStringRadix r (n div r) @ [digitChar (n mod r)]"
      by (subst toStringRadix.simps) simp
    then show ?thesis
      using 1 [OF False] digitChar_base36 [of "n mod r"] by simp
  qed
qed

lemma toUpperChar_base36: "c \<in> set digits36 \<Longrightarrow> upperAlnum (toUpperChar c)"
  unfolding digits36_def by (auto simp add: toUpperChar_def upperAlnum_def)

lemma toUpperCase_base36:
  "set ds \<subseteq> set digits36 \<Longrightarrow> \<forall>c \<in> set (toUpperCase ds). upperAlnum c"
  using toUpperChar_base36 by (auto simp add: toUpperCase_def)

lemma matchesTrackPattern_parts:
  assumes "stamp \<noteq> []" "\<forall>c \<in> set stamp. upperAlnum c"
    and "length suffix = 5" "\<forall>c \<in> set suffix. upperAlnum c"
  shows "matchesTrackPattern (''EMERGENCY-'' @ stamp @ ''-'' @ suffix)"
proof -
  have hy: "\<not> upperAlnum CHR ''-''" by (simp add: upperAlnum_def)
  have t: "takeWhile upperAlnum (stamp @ CHR ''-'' # suffix) = stamp"
    using assms(2) hy by (simp add: takeWhile_tail)
  have d: "dropWhile upperAlnum (stamp @ CHR ''-'' # suffix) = CHR ''-'' # suffix"
    using assms(2) hy by (simp add: dropWhile_append3)
  show ?thesis
    using assms(1,3,4) by (simp add: matchesTrackPattern_def startsWith_def t d list_all_iff)
qed

lemma generateTrackId_five_digits:
  assumes "5 \<le> length ds" "set ds \<subseteq> set digits36"
  shows "matchesTrackPattern (generateTrackId t (''0.'' @ ds))"
proof -
  have stamp: "toUpperCase (toStringRadix 36 t) \<noteq> []"
    "\<forall>c \<in> set (toUpperCase (toStringRadix 36 t)). upperAlnum c"
    using toStringRadix_base36 [of 36 t] toUpperCase_base36 [of "toStringRadix 36 t"]
    by (simp_all add: toUpperCase_def)
  have "set (take 5 ds) \<subseteq> set digits36"
    using set_take_subset [of 5 ds] assms(2) by blast
  then have suffix: "length (toUpperCase (take 5 ds)) = 5"
    "\<forall>c \<in> set (toUpperCase (take 5 ds)). upperAlnum c"
    using assms(1) toUpperCase_base36 [of "take 5 ds"] by (simp_all add: toUpperCase_def)
  have "generateTrackId t (''0.'' @ ds) =
      ''EMERGENCY-'' @ toUpperCase (toStringRadix 36 t) @ ''-'' @ toUpperCase (take 5 ds)"
    by (simp add: generateTrackId_def substring_def)
  then show ?thesis
    using matchesTrackPattern_parts [OF stamp suffix] by simp
qed

text \<open>
  C9. The suffix is \<^verbatim>\<open>Math.random().toString(36).substring(2, 7)\<close>: the first five
  digits of the fraction, when it has five. The draw 0.5 prints as \<^verbatim>\<open>0.i\<close> and the draw
  0 as \<^verbatim>\<open>0\<close>; the codes generated from them have a suffix of one character and of
  none, and do not match the pattern, while a draw with five or more digits does.
\<close>

theorem generateTrackId_short_suffix:
  "generateTrackId 1730000000000 ''0.i'' = ''EMERGENCY-M2R1BZ7K-I'' \<and>
   \<not> matchesTrackPattern (generateTrackId 1730000000000 ''0.i'') \<and>
   generateTrackId 1730000000000 ''0'' = ''EMERGENCY-M2R1BZ7K-'' \<and>
   \<not> matchesTrackPattern (generateTrackId 1730000000000 ''0'') \<and>
   generateTrackId 1730000000000 ''0.4fzyo82mvyr'' = ''EMERGENCY-M2R1BZ7K-4FZYO'' \<and>
   matchesTrackPattern (generateTrackId 1730000000000 ''0.4fzyo82mvyr'')"
  by (simp add: string_defs matchesTrackPattern_def upperAlnum_def)

subsection \<open>Resolving an alert\<close>

lemma notify_state:
  "trace (notify e m cs s) = trace s @ map (sendEvent e m) cs \<and>
   clock (notify e m cs s) = clock s \<and>
   EmergencyContact (notify e m cs s) = EmergencyContact s \<and>
   EmergencyAlert (notify e m cs s) = EmergencyAlert s"
  by (induction cs arbitrary: s) (simp_all add: send_trace send_frame)

lemma find_map_update:
  "find (\<lambda>a. oid a = i) (map (\<lambda>b. if oid b = i then b\<lparr>status := st, resolvedAt := t\<rparr> else b) xs) =
     map_option (\<lambda>b. b\<lparr>status := st, resolvedAt := t\<rparr>) (find (\<lambda>a. oid a = i) xs)"
  by (induction xs) simp_all

lemma post_resolve_found:
  assumes "findById i s = Some a"
  shows "fst (post_resolve e (ObjectId i) s) =
           \<lparr>code = 200, json = AlertResolved (a\<lparr>status := ''resolved'', resolvedAt := Some (clock s)\<rparr>)\<rparr>"
    and "EmergencyAlert (snd (post_resolve e (ObjectId i) s)) =
           map (\<lambda>b. if oid b = i then b\<lparr>status := ''resolved'', resolvedAt := Some (clock s)\<rparr> else b)
             (EmergencyAlert s)"
    and "EmergencyContact (snd (post_resolve e (ObjectId i) s)) = EmergencyContact s"
    and "clock (snd (post_resolve e (ObjectId i) s)) = clock s"
    and "trace (snd (post_resolve e (ObjectId i) s)) =
           trace s @
           (if isTwilioConfigured e
            then map (sendEvent e (resolutionMessage e (trackId a) (clock s)))
                   (filter isPrimary (case EmergencyContact s (userId a) of None \<Rightarrow> [] | Some cs \<Rightarrow> cs))
            else [])"
  using assms
  by (auto simp add: post_resolve_def findByIdAndUpdate_def notify_state Let_def split: option.split)

lemma post_resolve_findById:
  assumes "findById i s = Some a"
  shows "findById i (snd (post_resolve e (ObjectId i) s)) =
           Some (a\<lparr>status := ''resolved'', resolvedAt := Some (clock s)\<rparr>)"
  using assms post_resolve_found(2) [OF assms, of e]
  by (simp add: findById_def find_map_update)

subsection \<open>Raising an alert\<close>

lemma post_sos_frame:
  "EmergencyContact (snd (post_sos e r req s)) = EmergencyContact s"
  by (simp add: post_sos_def save_def Let_def case_prod_beta dispatch_state
      split: option.split sum.split)

lemma post_sos_alerts:
  "EmergencyAlert (snd (post_sos e r req s)) = EmergencyAlert s \<or>
   (\<exists>a. EmergencyAlert (snd (post_sos e r req s)) = EmergencyAlert s @ [a] \<and>
        status a = ''active'' \<and> resolvedAt a = None \<and> oid a = length (EmergencyAlert s) \<and>
        trackId a = generateTrackId (clock s) r \<and>
        trackId a \<notin> set (map trackId (EmergencyAlert s)))"
  by (simp add: post_sos_def save_def Let_def case_prod_beta dispatch_state
      split: option.split sum.split)

lemma post_contacts_frame:
  "EmergencyAlert (snd (post_contacts creq s)) = EmergencyAlert s"
  "trace (snd (post_contacts creq s)) = trace s"
  "clock (snd (post_contacts creq s)) = clock s"
  by (simp_all add: post_contacts_def split: option.split)

lemma post_sos_ok:
  assumes "validSos req = Some (u, la, lo)" and "EmergencyContact s u = Some cs" and "cs \<noteq> []"
    and "req_alertType req = Some t" and "orElse (Some t) ''sos'' \<in> set alertTypes"
    and "generateTrackId (clock s) r \<notin> set (map trackId (EmergencyAlert s))"
  shows "code (fst (post_sos e r req s)) = 200"
    and "EmergencyAlert (snd (post_sos e r req s)) =
      EmergencyAlert s @
      [\<lparr>oid = length (EmergencyAlert s), userId = u, trackId = generateTrackId (clock s) r,
        location = \<lparr>lat = la, lng = lo\<rparr>,
        message = orElse (req_message req) ''Emergency SOS Alert'',
        alertType = orElse (Some t) ''sos'', status = ''active'',
        contactsNotified =
          fst (fst (dispatch e
            (alertMessage e (req_userName req)
               (''https://www.google.com/maps?q='' @ numberToString e la @ '','' @ numberToString e lo)
               t (req_message req) (generateTrackId (clock s) r) (clock s))
            cs ([], 0, 0) s)),
        userName = orElse (req_userName req) ''User'', resolvedAt = None,
        createdAt = clock s + 1000 * length cs\<rparr>]"
    and "clock (snd (post_sos e r req s)) = clock s + 1000 * length cs"
    and "trace (snd (post_sos e r req s)) =
      trace s @
      map (sendEvent e
            (alertMessage e (req_userName req)
               (''https://www.google.com/maps?q='' @ numberToString e la @ '','' @ numberToString e lo)
               t (req_message req) (generateTrackId (clock s) r) (clock s))) cs"
  using assms
  by (simp_all add: post_sos_def save_def statuses_def Let_def case_prod_beta dispatch_state)

lemma sosU1_valid: "validSos sosU1 = Some (''u1'', 12.9, 77.6)"
  by (simp add: validSos_def sosU1_def)

lemma withContacts_u1:
  "EmergencyContact withContacts ''u1'' =
     Some [\<lparr>name = ''Ann'', phone = ''9876543210'', relationship = None, isPrimary = True\<rparr>,
           \<lparr>name = ''Bob'', phone = ''9123456780'', relationship = None, isPrimary = False\<rparr>]"
  by (simp add: withContacts_eq)

lemma alarmed_state:
  "map (\<lambda>a. (oid a, userId a, trackId a, status a, resolvedAt a)) (EmergencyAlert (alarmed e)) =
     [(0, ''u1'', ''EMERGENCY-3UW-4FZYO'', ''active'', None)]"
  "EmergencyContact (alarmed e) = EmergencyContact withContacts"
  "clock (alarmed e) = 7000"
proof -
  have t: "req_alertType sosU1 = Some ''sos''" by (simp add: sosU1_def)
  have ty: "orElse (Some ''sos'') ''sos'' \<in> set alertTypes" by (simp add: orElse_def alertTypes_def)
  have fresh: "generateTrackId (clock withContacts) ''0.4fzyo82mvyr'' \<notin>
      set (map trackId (EmergencyAlert withContacts))"
    by (simp add: withContacts_eq)
  note ok = post_sos_ok [OF sosU1_valid withContacts_u1 _ t ty fresh, of e]
  show "map (\<lambda>a. (oid a, userId a, trackId a, status a, resolvedAt a)) (EmergencyAlert (alarmed e)) =
     [(0, ''u1'', ''EMERGENCY-3UW-4FZYO'', ''active'', None)]"
    unfolding alarmed_def by (simp add: ok(2)) (simp add: withContacts_eq string_defs)
  show "EmergencyContact (alarmed e) = EmergencyContact withContacts"
    unfolding alarmed_def by (rule post_sos_frame)
  show "clock (alarmed e) = 7000"
    unfolding alarmed_def by (simp add: ok(3)) (simp add: withContacts_eq)
qed

subsection \<open>Statuses of the stored alerts\<close>

lemma post_resolve_alerts:
  "EmergencyAlert (snd (post_resolve e alertId s)) = EmergencyAlert s \<or>
   (\<exists>i. EmergencyAlert (snd (post_resolve e alertId s)) =
      map (\<lambda>b. if oid b = i then b\<lparr>status := ''resolved'', resolvedAt := Some (clock s)\<rparr> else b)
        (EmergencyAlert s))"
proof (cases alertId)
  case Malformed
  then show ?thesis by (simp add: post_resolve_def)
next
  case (ObjectId i)
  show ?thesis
  proof (cases "findById i s")
    case None
    then show ?thesis
      using ObjectId by (simp add: post_resolve_def findByIdAndUpdate_def)
  next
    case (Some a)
    then show ?thesis
      using ObjectId post_resolve_found(2) [OF Some, of e] by blast
  qed
qed

lemma reachable_status:
  "reachable e s \<Longrightarrow> \<forall>a \<in> set (EmergencyAlert s). status a = ''active'' \<or> status a = ''resolved''"
proof (induction rule: reachable.induct)
  case (start t)
  show ?case by simp
next
  case (wait s d)
  then show ?case by simp
next
  case (contacts s creq)
  then show ?case by (simp add: post_contacts_frame)
next
  case (sos s random36 req)
  from post_sos_alerts [of e random36 req s] show ?case
  proof
    assume "EmergencyAlert (snd (post_sos e random36 req s)) = EmergencyAlert s"
    with sos.IH show ?thesis by simp
  next
    assume "\<exists>a. EmergencyAlert (snd (post_sos e random36 req s)) = EmergencyAlert s @ [a] \<and>
        status a = ''active'' \<and> resolvedAt a = None \<and> oid a = length (EmergencyAlert s) \<and>
        trackId a = generateTrackId (clock s) random36 \<and>
        trackId a \<notin> set (map trackId (EmergencyAlert s))"
    with sos.IH show ?thesis by auto
  qed
next
  case (resolve s alertId)
  from post_resolve_alerts [of e alertId s] show ?case
  proof
    assume "EmergencyAlert (snd (post_resolve e alertId s)) = EmergencyAlert s"
    with resolve.IH show ?thesis by simp
  next
    assume "\<exists>i. EmergencyAlert (snd (post_resolve e alertId s)) =
      map (\<lambda>b. if oid b = i then b\<lparr>status := ''resolved'', resolvedAt := Some (clock s)\<rparr> else b)
        (EmergencyAlert s)"
    with resolve.IH show ?thesis by auto
  qed
qed

lemma count_by_status:
  "\<forall>a \<in> set xs. status a = ''active'' \<or> status a = ''resolved'' \<Longrightarrow>
   length (filter (\<lambda>a. userId a = u) xs) =
     length (filter (\<lambda>a. userId a = u \<and> status a = ''active'') xs) +
     length (filter (\<lambda>a. userId a = u \<and> status a = ''resolved'') xs)"
  by (induction xs) auto

lemma reachable_serve: "reachable e s \<Longrightarrow> reachable e (serve e rq s)"
  by (cases rq) (simp_all add: reachable.contacts reachable.sos reachable.resolve reachable.wait)

lemma reachable_serveAll: "reachable e s \<Longrightarrow> reachable e (serveAll e rqs s)"
  by (induction rqs arbitrary: s) (simp_all add: reachable_serve)

text \<open>
  C10, as the code has it. In every state the server reaches, every stored status is
  \<^verbatim>\<open>active\<close> or \<^verbatim>\<open>resolved\<close>, and the counts that the stats endpoint returns for an
  owner satisfy \<^verbatim>\<open>totalAlerts = activeAlerts + resolvedAlerts\<close> whenever the alert
  collection is the same at the three count queries, that is, when no write of another
  request to it lands between them.
\<close>

theorem stats_add_up_when_counts_see_one_collection:
  assumes "reachable e s"
    and "EmergencyAlert (serveAll e others1 s) = EmergencyAlert s"
    and "EmergencyAlert (serveAll e others2 (serveAll e others1 s)) = EmergencyAlert s"
  shows "(\<forall>a \<in> set (EmergencyAlert s). status a = ''active'' \<or> status a = ''resolved'') \<and>
         (\<exists>st. fst (get_stats e u others1 others2 others3 s) = \<lparr>code = 200, json = UserStats st\<rparr> \<and>
               totalAlerts st = activeAlerts st + resolvedAlerts st)"
  using reachable_status [OF assms(1)] count_by_status [OF reachable_status [OF assms(1)], of u]
    assms(2,3)
  by (simp add: get_stats_def countDocuments_def Let_def)

subsection \<open>The example, step by step\<close>

lemma alarmed_alert:
  "\<exists>a. EmergencyAlert (alarmed e) = [a] \<and> findById 0 (alarmed e) = Some a \<and> oid a = 0 \<and>
       userId a = ''u1'' \<and> trackId a = ''EMERGENCY-3UW-4FZYO'' \<and> status a = ''active'' \<and>
       resolvedAt a = None"
  using alarmed_state(1) [of e] by (auto simp add: findById_def map_eq_Cons_conv)

lemma resolved_state:
  "map (\<lambda>a. (oid a, userId a, trackId a, status a, resolvedAt a)) (EmergencyAlert (resolved e)) =
     [(0, ''u1'', ''EMERGENCY-3UW-4FZYO'', ''resolved'', Some 7000)]"
  "EmergencyContact (resolved e) = EmergencyContact withContacts"
  "clock (resolved e) = 7000"
proof -
  obtain a where a: "EmergencyAlert (alarmed e) = [a]" "findById 0 (alarmed e) = Some a" "oid a = 0"
    "userId a = ''u1''" "trackId a = ''EMERGENCY-3UW-4FZYO''"
    using alarmed_alert [of e] by blast
  note found = post_resolve_found [OF a(2), of e]
  show "map (\<lambda>a. (oid a, userId a, trackId a, status a, resolvedAt a)) (EmergencyAlert (resolved e)) =
     [(0, ''u1'', ''EMERGENCY-3UW-4FZYO'', ''resolved'', Some 7000)]"
    unfolding resolved_def by (simp add: found(2) a alarmed_state(3))
  show "EmergencyContact (resolved e) = EmergencyContact withContacts"
    unfolding resolved_def by (simp add: found(3) alarmed_state(2))
  show "clock (resolved e) = 7000"
    unfolding resolved_def by (simp add: found(4) alarmed_state(3))
qed

lemma alarmedAgain_state:
  "map (\<lambda>a. (oid a, userId a, trackId a, status a, resolvedAt a)) (EmergencyAlert (alarmedAgain e)) =
     [(0, ''u1'', ''EMERGENCY-3UW-4FZYO'', ''resolved'', Some 7000),
      (1, ''u1'', ''EMERGENCY-1FP4-K3X9Q'', ''active'', None)]"
  "EmergencyContact (alarmedAgain e) = EmergencyContact withContacts"
proof -
  have t: "req_alertType sosU1 = Some ''sos''" by (simp add: sosU1_def)
  have ty: "orElse (Some ''sos'') ''sos'' \<in> set alertTypes" by (simp add: orElse_def alertTypes_def)
  have c: "EmergencyContact (aMinuteLater (resolved e)) ''u1'' =
     Some [\<lparr>name = ''Ann'', phone = ''9876543210'', relationship = None, isPrimary = True\<rparr>,
           \<lparr>name = ''Bob'', phone = ''9123456780'', relationship = None, isPrimary = False\<rparr>]"
    by (simp add: aMinuteLater_def resolved_state(2) withContacts_u1)
  have k: "clock (aMinuteLater (resolved e)) = 67000"
    by (simp add: aMinuteLater_def resolved_state(3))
  have al: "map (\<lambda>a. (oid a, userId a, trackId a, status a, resolvedAt a))
      (EmergencyAlert (aMinuteLater (resolved e))) =
      [(0, ''u1'', ''EMERGENCY-3UW-4FZYO'', ''resolved'', Some 7000)]"
    by (simp add: aMinuteLater_def resolved_state(1))
  then obtain a where a: "EmergencyAlert (aMinuteLater (resolved e)) = [a]"
    "trackId a = ''EMERGENCY-3UW-4FZYO''"
    by (auto simp add: map_eq_Cons_conv)
  have tr: "map trackId (EmergencyAlert (aMinuteLater (resolved e))) = [''EMERGENCY-3UW-4FZYO'']"
    by (simp add: a)
  have len: "length (EmergencyAlert (aMinuteLater (resolved e))) = 1"
    by (simp add: a)
  have code: "generateTrackId 67000 ''0.k3x9q1zz'' = ''EMERGENCY-1FP4-K3X9Q''"
    by (simp add: string_defs)
  have fresh: "generateTrackId (clock (aMinuteLater (resolved e))) ''0.k3x9q1zz'' \<notin>
      set (map trackId (EmergencyAlert (aMinuteLater (resolved e))))"
    by (simp add: k tr code)
  note ok = post_sos_ok [OF sosU1_valid c _ t ty fresh, of e]
  show "map (\<lambda>a. (oid a, userId a, trackId a, status a, resolvedAt a)) (EmergencyAlert (alarmedAgain e)) =
     [(0, ''u1'', ''EMERGENCY-3UW-4FZYO'', ''resolved'', Some 7000),
      (1, ''u1'', ''EMERGENCY-1FP4-K3X9Q'', ''active'', None)]"
    unfolding alarmedAgain_def by (simp add: ok(2)) (simp add: al len k code)
  show "EmergencyContact (alarmedAgain e) = EmergencyContact withContacts"
    unfolding alarmedAgain_def by (simp add: post_sos_frame aMinuteLater_def resolved_state(2))
qed

lemma reachable_alarmedAgain: "reachable e (alarmedAgain e)"
  unfolding alarmedAgain_def aMinuteLater_def resolved_def alarmed_def withContacts_def started_def
  by (intro reachable.sos reachable.wait reachable.resolve reachable.contacts reachable.start)

theorem stats_add_up_when_counts_see_one_collection_witness:
  "reachable (server False accepting) (alarmedAgain (server False accepting)) \<and>
   EmergencyAlert (serveAll (server False accepting) [SaveContacts saveU1]
                     (alarmedAgain (server False accepting))) =
     EmergencyAlert (alarmedAgain (server False accepting)) \<and>
   EmergencyAlert (serveAll (server False accepting) [Elapse 5]
                     (serveAll (server False accepting) [SaveContacts saveU1]
                        (alarmedAgain (server False accepting)))) =
     EmergencyAlert (alarmedAgain (server False accepting)) \<and>
   map status (EmergencyAlert (alarmedAgain (server False accepting))) = [''resolved'', ''active''] \<and>
   fst (get_stats (server False accepting) ''u1'' [SaveContacts saveU1] [Elapse 5] []
          (alarmedAgain (server False accepting))) =
     \<lparr>code = 200,
      json = UserStats \<lparr>totalAlerts = 2, activeAlerts = 1, resolvedAlerts = 1,
                        emergencyContacts = 2\<rparr>\<rparr>"
proof -
  let ?e = "server False accepting"
  have h: "reachable ?e (alarmedAgain ?e)"
    by (rule reachable_alarmedAgain)
  have w1: "EmergencyAlert (serveAll ?e [SaveContacts saveU1] (alarmedAgain ?e)) =
      EmergencyAlert (alarmedAgain ?e)"
    by (simp add: post_contacts_frame)
  have w2: "EmergencyAlert (serveAll ?e [Elapse 5] (serveAll ?e [SaveContacts saveU1] (alarmedAgain ?e))) =
      EmergencyAlert (alarmedAgain ?e)"
    by (simp add: post_contacts_frame)
  obtain a b where ab: "EmergencyAlert (alarmedAgain ?e) = [a, b]"
    "userId a = ''u1''" "status a = ''resolved''" "userId b = ''u1''" "status b = ''active''"
    using alarmedAgain_state(1) [of ?e] by (auto simp add: map_eq_Cons_conv)
  have c: "EmergencyContact (snd (post_contacts saveU1 (alarmedAgain ?e))) ''u1'' =
      EmergencyContact withContacts ''u1''"
    by (simp add: post_contacts_def saveU1_def truthy_def orElse_def ann_def bob_def
        castContact_def withContacts_u1)
  show ?thesis
    using h w1 w2
      stats_add_up_when_counts_see_one_collection [OF h w1 w2, where u = "''u1''" and ?others3.0 = "[]"]
    by (simp add: get_stats_def countDocuments_def post_contacts_frame ab c withContacts_u1)
qed

lemma reachable_alarmed: "reachable e (alarmed e)"
  unfolding alarmed_def withContacts_def started_def
  by (intro reachable.sos reachable.contacts reachable.start)

text \<open>
  The claim as stated, for every answer of the endpoint, fails when another request
  writes between the counts: with the one alert of the example counted as total and as
  active, and resolved by another request before the third count, the endpoint
  answers 1, 1 and 1.
\<close>

theorem stats_with_resolve_between_counts:
  "reachable (server False accepting) (alarmed (server False accepting)) \<and>
   fst (get_stats (server False accepting) ''u1'' [] [Resolve (ObjectId 0)] []
          (alarmed (server False accepting))) =
     \<lparr>code = 200,
      json = UserStats \<lparr>totalAlerts = 1, activeAlerts = 1, resolvedAlerts = 1,
                        emergencyContacts = 2\<rparr>\<rparr>"
proof -
  let ?e = "server False accepting"
  obtain a where a: "EmergencyAlert (alarmed ?e) = [a]" "userId a = ''u1''" "status a = ''active''"
    using alarmed_alert [of ?e] by blast
  obtain b where b: "EmergencyAlert (resolved ?e) = [b]" "userId b = ''u1''" "status b = ''resolved''"
    using resolved_state(1) [of ?e] by (auto simp add: map_eq_Cons_conv)
  have r: "snd (post_resolve ?e (ObjectId 0) (alarmed ?e)) = resolved ?e"
    by (simp add: resolved_def)
  show ?thesis
    using reachable_alarmed [of ?e]
    by (simp add: get_stats_def countDocuments_def r a b resolved_state(2) withContacts_u1)
qed

subsection \<open>Resolution notifications\<close>

text \<open>
  C1, as the code has it. Resolving an existing alert with the provider configured
  sends the resolution message to exactly the contacts whose \<^verbatim>\<open>isPrimary\<close> flag is set
  in the owner's contact list as it is stored at that moment, in list order, and to
  nobody when the owner has no list; the ledger of the alert plays no part. When the
  provider is not configured, the handler skips the notification (line 433 tests
  \<^verbatim>\<open>isTwilioConfigured\<close>): nothing is sent or simulated.
\<close>

theorem resolve_notifies_current_primaries:
  assumes "findById i s = Some a"
  shows "trace (snd (post_resolve e (ObjectId i) s)) =
     trace s @
     (if isTwilioConfigured e then
        map (\<lambda>c. ProviderCall
                   \<lparr>msg_from = TWILIO_WHATSAPP_FROM e,
                    msg_to = formatWhatsAppNumber (phone c),
                    msg_body = resolutionMessage e (trackId a) (clock s)\<rparr>)
          (filter isPrimary (case EmergencyContact s (userId a) of None \<Rightarrow> [] | Some cs \<Rightarrow> cs))
      else [])"
  by (simp add: post_resolve_found(5) [OF assms] sendEvent_def)

theorem resolve_notifies_current_primaries_witness:
  "findById 0 (alarmed (server True accepting)) \<noteq> None \<and>
   map recipient (trace (snd (post_resolve (server True accepting) (ObjectId 0)
                                (alarmed (server True accepting))))) =
   map recipient (trace (alarmed (server True accepting))) @ [''whatsapp:+919876543210'']"
proof -
  let ?e = "server True accepting"
  obtain a where a: "findById 0 (alarmed ?e) = Some a" "userId a = ''u1''"
    using alarmed_alert [of ?e] by blast
  have c: "EmergencyContact (alarmed ?e) ''u1'' =
     Some [\<lparr>name = ''Ann'', phone = ''9876543210'', relationship = None, isPrimary = True\<rparr>,
           \<lparr>name = ''Bob'', phone = ''9123456780'', relationship = None, isPrimary = False\<rparr>]"
    by (simp add: alarmed_state(2) withContacts_u1)
  have f: "formatWhatsAppNumber ''9876543210'' = ''whatsapp:+919876543210''"
    by (simp add: string_defs)
  show ?thesis
    using a(1) resolve_notifies_current_primaries [OF a(1), of ?e]
    by (simp add: a(2) c f recipient_def) (simp add: server_def)
qed

text \<open>
  The claim as the specification words it, one notification to Ann whether or not the
  provider is configured, fails in simulated mode: in the example, with Ann primary in
  the stored list, resolving the alert answers 200 and leaves the trace as it was.
\<close>

theorem resolve_in_simulated_mode_notifies_nobody:
  "map name (filter isPrimary
     (case EmergencyContact (alarmed (server False accepting)) ''u1'' of
        None \<Rightarrow> [] | Some cs \<Rightarrow> cs)) = [''Ann''] \<and>
   code (fst (post_resolve (server False accepting) (ObjectId 0)
                (alarmed (server False accepting)))) = 200 \<and>
   trace (snd (post_resolve (server False accepting) (ObjectId 0)
                 (alarmed (server False accepting)))) =
   trace (alarmed (server False accepting))"
proof -
  let ?e = "server False accepting"
  obtain a where a: "findById 0 (alarmed ?e) = Some a"
    using alarmed_alert [of ?e] by blast
  have "\<not> isTwilioConfigured ?e" by (simp add: server_def)
  then show ?thesis
    by (simp add: post_resolve_found(1,5) [OF a] alarmed_state(2) withContacts_u1)
qed

subsection \<open>Resolving twice\<close>

lemma find_map_oid:
  assumes "\<And>b. oid (f b) = oid b"
  shows "find (\<lambda>a. oid a = i) (map f xs) = map_option f (find (\<lambda>a. oid a = i) xs)"
  using assms by (induction xs) simp_all

lemma find_append_found:
  "find P xs = Some x \<Longrightarrow> find P (xs @ ys) = Some x"
  by (induction xs) (simp_all split: if_splits)

lemma found_after_post_contacts:
  assumes "findById i s = Some a"
  shows "findById i (snd (post_contacts creq s)) = Some a"
  using assms by (simp add: findById_def post_contacts_frame)

lemma found_after_post_sos:
  assumes "findById i s = Some a"
  shows "findById i (snd (post_sos e r req s)) = Some a"
  using assms post_sos_alerts [of e r req s]
  by (auto simp add: findById_def find_append_found)

lemma resolved_after_post_resolve:
  assumes "findById i s = Some a" and "status a = ''resolved''"
  shows "map_option status (findById i (snd (post_resolve e alertId s))) = Some ''resolved''"
proof -
  from post_resolve_alerts [of e alertId s] show ?thesis
  proof
    assume "EmergencyAlert (snd (post_resolve e alertId s)) = EmergencyAlert s"
    then show ?thesis using assms by (simp add: findById_def)
  next
    assume "\<exists>j. EmergencyAlert (snd (post_resolve e alertId s)) =
      map (\<lambda>b. if oid b = j then b\<lparr>status := ''resolved'', resolvedAt := Some (clock s)\<rparr> else b)
        (EmergencyAlert s)"
    then obtain j where "EmergencyAlert (snd (post_resolve e alertId s)) =
      map (\<lambda>b. if oid b = j then b\<lparr>status := ''resolved'', resolvedAt := Some (clock s)\<rparr> else b)
        (EmergencyAlert s)" ..
    then show ?thesis
      using assms by (simp add: findById_def find_map_oid)
  qed
qed

text \<open>
  C4, as the code has it. The only update of a stored alert sets \<^verbatim>\<open>status\<close> to
  \<^verbatim>\<open>resolved\<close> and \<^verbatim>\<open>resolvedAt\<close> to the time of the call, whatever the alert was
  before: no handler sets a status back to \<^verbatim>\<open>active\<close>, and resolving an alert that is
  already resolved leaves it resolved and overwrites \<^verbatim>\<open>resolvedAt\<close> with the time of
  the later call.
\<close>

theorem resolve_twice_keeps_status_and_restamps:
  assumes "findById i s = Some a"
  shows "findById i (snd (post_resolve e (ObjectId i) s)) =
           Some (a\<lparr>status := ''resolved'', resolvedAt := Some (clock s)\<rparr>) \<and>
         findById i (snd (post_resolve e (ObjectId i)
                            ((snd (post_resolve e (ObjectId i) s))\<lparr>clock := clock s + d\<rparr>))) =
           Some (a\<lparr>status := ''resolved'', resolvedAt := Some (clock s + d)\<rparr>) \<and>
         (status a = ''resolved'' \<longrightarrow>
            map_option status (findById i (snd (post_contacts creq s))) = Some ''resolved'' \<and>
            map_option status (findById i (snd (post_sos e draw req s))) = Some ''resolved'' \<and>
            map_option status (findById i (snd (post_resolve e alertId s))) = Some ''resolved'')"
proof -
  let ?s1 = "snd (post_resolve e (ObjectId i) s)"
  have first: "findById i ?s1 = Some (a\<lparr>status := ''resolved'', resolvedAt := Some (clock s)\<rparr>)"
    by (rule post_resolve_findById [OF assms])
  then have later: "findById i (?s1\<lparr>clock := clock s + d\<rparr>) =
      Some (a\<lparr>status := ''resolved'', resolvedAt := Some (clock s)\<rparr>)"
    by (simp add: findById_def)
  have second: "findById i (snd (post_resolve e (ObjectId i) (?s1\<lparr>clock := clock s + d\<rparr>))) =
      Some (a\<lparr>status := ''resolved'', resolvedAt := Some (clock s + d)\<rparr>)"
    using post_resolve_findById [OF later, of e] by simp
  have oneway: "map_option status (findById i (snd (post_contacts creq s))) = Some ''resolved'' \<and>
      map_option status (findById i (snd (post_sos e draw req s))) = Some ''resolved'' \<and>
      map_option status (findById i (snd (post_resolve e alertId s))) = Some ''resolved''"
    if "status a = ''resolved''"
    using that found_after_post_contacts [OF assms, of creq]
      found_after_post_sos [OF assms, of e draw req]
      resolved_after_post_resolve [OF assms that, of e alertId]
    by simp
  show ?thesis
    using first second oneway by blast
qed

theorem resolve_twice_keeps_status_and_restamps_witness:
  "map_option status (findById 0 (resolved (server False accepting))) = Some ''resolved'' \<and>
   map_option (\<lambda>a. (status a, resolvedAt a))
     (findById 0 (snd (post_resolve (server False accepting) (ObjectId 0)
        ((snd (post_resolve (server False accepting) (ObjectId 0)
                 (resolved (server False accepting))))
           \<lparr>clock := clock (resolved (server False accepting)) + 60000\<rparr>)))) =
     Some (''resolved'', Some 67000) \<and>
   map_option status
     (findById 0 (snd (post_sos (server False accepting) ''0.k3x9q1zz'' sosU1
                         (resolved (server False accepting))))) = Some ''resolved''"
proof -
  let ?e = "server False accepting"
  obtain a where a: "findById 0 (resolved ?e) = Some a" and r: "status a = ''resolved''"
    using resolved_state(1) [of ?e] by (auto simp add: findById_def map_eq_Cons_conv)
  show ?thesis
    using a r
      resolve_twice_keeps_status_and_restamps [OF a, where e = ?e and d = 60000
        and draw = "''0.k3x9q1zz''" and req = sosU1]
    by (simp add: resolved_state(3))
qed

text \<open>
  The claim as the specification words it, that \<^verbatim>\<open>resolvedAt\<close> keeps the time of the
  first resolution, fails: resolved at 7000 and again a minute later, the stored alert
  carries 67000.
\<close>

theorem second_resolve_overwrites_resolvedAt:
  "map (\<lambda>a. (oid a, status a, resolvedAt a)) (EmergencyAlert (resolved (server False accepting))) =
     [(0, ''resolved'', Some 7000)] \<and>
   map (\<lambda>a. (oid a, status a, resolvedAt a)) (EmergencyAlert (resolvedTwice (server False accepting))) =
     [(0, ''resolved'', Some 67000)]"
proof -
  let ?e = "server False accepting"
  have one: "map (\<lambda>a. (oid a, status a, resolvedAt a)) (EmergencyAlert (resolved ?e)) =
     [(0, ''resolved'', Some 7000)]"
    using resolved_state(1) [of ?e] by (auto simp add: map_eq_Cons_conv)
  then obtain a where a: "EmergencyAlert (aMinuteLater (resolved ?e)) = [a]" "oid a = 0"
    by (auto simp add: map_eq_Cons_conv aMinuteLater_def)
  then have f: "findById 0 (aMinuteLater (resolved ?e)) = Some a"
    by (simp add: findById_def)
  have k: "clock (aMinuteLater (resolved ?e)) = 67000"
    by (simp add: aMinuteLater_def resolved_state(3))
  have two: "map (\<lambda>a. (oid a, status a, resolvedAt a)) (EmergencyAlert (resolvedTwice ?e)) =
     [(0, ''resolved'', Some 67000)]"
    unfolding resolvedTwice_def by (simp add: post_resolve_found(2) [OF f] a k)
  show ?thesis using one two by simp
qed

subsection \<open>Requests that the SOS handler refuses\<close>






text \<open>
  C2. The request of the example is answered with 200. The same request without
  \<^verbatim>\<open>alertType\<close> is answered with 500 before anything is sent:
  \<^verbatim>\<open>alertType.toUpperCase()\<close> in the message template throws on \<^verbatim>\<open>undefined\<close>, although
  line 332 and the schema both default the field to \<^verbatim>\<open>sos\<close>. The same request with the
  latitude 0 is answered with 400, because line 254 tests the coordinates for
  truthiness and 0 is falsy.
\<close>

theorem sos_fails_without_alertType_and_at_zero:
  "code (fst (post_sos (server True accepting) ''0.4fzyo82mvyr'' sosU1 withContacts)) = 200 \<and>
   post_sos (server True accepting) ''0.4fzyo82mvyr'' (sosU1\<lparr>req_alertType := None\<rparr>) withContacts =
     (\<lparr>code = 500, json = Failure ''Failed to send emergency alert''\<rparr>, withContacts) \<and>
   post_sos (server True accepting) ''0.4fzyo82mvyr''
     (sosU1\<lparr>req_location := Some \<lparr>req_lat = Some 0, req_lng = Some 77.6\<rparr>\<rparr>) withContacts =
     (\<lparr>code = 400, json = Failure ''Invalid request. userId and location required.''\<rparr>,
      withContacts)"
proof -
  have t: "req_alertType sosU1 = Some ''sos''" by (simp add: sosU1_def)
  have ty: "orElse (Some ''sos'') ''sos'' \<in> set alertTypes" by (simp add: orElse_def alertTypes_def)
  have fresh: "generateTrackId (clock withContacts) ''0.4fzyo82mvyr'' \<notin>
      set (map trackId (EmergencyAlert withContacts))"
    by (simp add: withContacts_eq)
  have ok: "code (fst (post_sos (server True accepting) ''0.4fzyo82mvyr'' sosU1 withContacts)) = 200"
    by (rule post_sos_ok(1) [OF sosU1_valid withContacts_u1 _ t ty fresh]) simp
  have v: "validSos (sosU1\<lparr>req_alertType := None\<rparr>) = Some (''u1'', 12.9, 77.6)"
    by (simp add: validSos_def sosU1_def)
  have no_type: "post_sos (server True accepting) ''0.4fzyo82mvyr'' (sosU1\<lparr>req_alertType := None\<rparr>)
      withContacts = (\<lparr>code = 500, json = Failure ''Failed to send emergency alert''\<rparr>, withContacts)"
    by (simp add: post_sos_def v withContacts_u1 sosFailed_def)
  have z: "validSos (sosU1\<lparr>req_location := Some \<lparr>req_lat = Some 0, req_lng = Some 77.6\<rparr>\<rparr>) = None"
    by (simp add: validSos_def sosU1_def)
  have zero: "post_sos (server True accepting) ''0.4fzyo82mvyr''
      (sosU1\<lparr>req_location := Some \<lparr>req_lat = Some 0, req_lng = Some 77.6\<rparr>\<rparr>) withContacts =
      (\<lparr>code = 400, json = Failure ''Invalid request. userId and location required.''\<rparr>,
       withContacts)"
    unfolding post_sos_def z by (simp add: invalidRequest_def)
  show ?thesis
    using ok no_type zero by simp
qed

subsection \<open>A tracking code that is already stored\<close>







end
